theory Spec2Isabelle
  imports Main "HOL-Library.Sublist"
begin

section \<open>The backend control script \<open>server_control.py\<close>\<close>

text \<open>
  The script supervises one server process through a record file \<open>data/server.pid\<close>.
  Its functions talk to the operating system: they read, write and remove the record file,
  probe and signal processes with \<open>os.kill\<close>, spawn the server with \<open>subprocess.Popen\<close>
  and sleep. The embedding threads a \<open>world\<close> through every function and takes the
  answers of the operating system from an \<open>env\<close>, a record of answer tables indexed
  by a clock that advances with every question asked.

  Every call to the operating system that can raise has its faults among the answers of its
  table: the existence check, the read, the write and the removal of the record file, the
  creation of its directory, the existence check of the executable, the signal primitives,
  the spawn, the decoding of the captured error output, and the interruption of the
  foreground wait by the user. A function of the script returns \<open>Inl e\<close> when the
  exception \<open>e\<close> leaves it and \<open>Inr v\<close> when it returns \<open>v\<close>. Printing and
  sleeping are taken to return.
\<close>

subsection \<open>Python values: exceptions, \<open>str\<close> and \<open>int\<close> on text\<close>

text \<open>
  The exception classes the handlers of the script tell apart. \<open>IOError\<close> is an alias
  of \<open>OSError\<close>; \<open>OtherError\<close> stands for any other subclass of \<open>Exception\<close>
  (for instance the \<open>OverflowError\<close> of \<open>os.kill\<close> on a pid that does not fit the
  platform's pid type).
\<close>

datatype exn = OSError | ValueError | OtherError

text \<open>
  Text is a list of characters with code points below 256. \<open>py_isspace\<close> lists the
  code points in that range that \<open>str.strip()\<close> and \<open>int()\<close> remove.
\<close>

definition py_isspace :: "char \<Rightarrow> bool" where
  "py_isspace c = (of_char c \<in> {9, 10, 11, 12, 13, 28, 29, 30, 31, 32, 133, 160 :: nat})"

definition py_strip :: "string \<Rightarrow> string" where
  "py_strip s = rev (dropWhile py_isspace (rev (dropWhile py_isspace s)))"

definition is_digit :: "char \<Rightarrow> bool" where
  "is_digit c = (48 \<le> (of_char c :: nat) \<and> (of_char c :: nat) \<le> 57)"

definition digit_val :: "char \<Rightarrow> int" where
  "digit_val c = of_char c - 48"

definition digit_char :: "int \<Rightarrow> char" where
  "digit_char d = char_of (48 + d)"

text \<open>
  The digits of a decimal literal after its first digit: \<open>int()\<close> accepts a single
  underscore between two digits.
\<close>

fun py_digits :: "int \<Rightarrow> string \<Rightarrow> int option" where
  "py_digits acc [] = Some acc"
| "py_digits acc (c # cs) =
     (if is_digit c then py_digits (10 * acc + digit_val c) cs
      else if c = CHR ''_'' then
        (case cs of
           [] \<Rightarrow> None
         | d # ds \<Rightarrow> if is_digit d then py_digits (10 * acc + digit_val d) ds else None)
      else None)"

definition py_unsigned :: "string \<Rightarrow> int option" where
  "py_unsigned s =
     (case s of
        [] \<Rightarrow> None
      | c # cs \<Rightarrow> if is_digit c then py_digits (digit_val c) cs else None)"

text \<open>\<open>int(s)\<close> on text; \<open>None\<close> is the \<open>ValueError\<close>.\<close>

definition py_int :: "string \<Rightarrow> int option" where
  "py_int s =
     (case py_strip s of
        [] \<Rightarrow> None
      | c # cs \<Rightarrow>
          if c = CHR ''-'' then map_option uminus (py_unsigned cs)
          else if c = CHR ''+'' then py_unsigned cs
          else py_unsigned (c # cs))"

text \<open>The decimal digits of a non-negative integer, and \<open>str(i)\<close> on an integer.\<close>

function str_digits :: "int \<Rightarrow> string" where
  "str_digits n =
     (if n < 10 then [digit_char n] else str_digits (n div 10) @ [digit_char (n mod 10)])"
  by pat_completeness auto
termination
  by (relation "measure nat") auto

declare str_digits.simps [simp del]

definition py_str :: "int \<Rightarrow> string" where
  "py_str i = (if i < 0 then CHR ''-'' # str_digits (- i) else str_digits i)"

subsection \<open>The world and the environment\<close>

datatype signal = SIG0 | SIGTERM | SIGKILL

text \<open>
  The two launch targets: \<open>[str(SERVER_EXECUTABLE)]\<close> and \<open>SERVER_SOURCE_CMD\<close>; and
  the two ways the child's standard streams are set up: inherited (no \<open>stdout\<close>/\<open>stderr\<close>
  argument) or \<open>subprocess.PIPE\<close>.
\<close>

datatype target = Executable | GoSource

datatype stdio = Inherit | Pipe

text \<open>The lines the script prints, one constructor per \<open>print\<close> site (or group of sites).\<close>

datatype msg =
    MsgAlreadyRunning "int option"
  | MsgExecutableNotFound
  | MsgStarting
  | MsgForeground
  | MsgStoppingServer
  | MsgStarted target int
  | MsgFailedToStart
  | MsgChildError string
  | MsgStartException exn
  | MsgNotRunning
  | MsgStopping int
  | MsgForcing
  | MsgStopped
  | MsgStopException exn
  | MsgStatusStopped
  | MsgStatusRunning int
  | MsgRestarting

text \<open>
  What the script does to the outside, in order: lines printed, signals sent with
  \<open>os.kill\<close>, \<open>taskkill /F /PID\<close> runs, sleeps (in milliseconds), directory creation and
  spawns.
\<close>

datatype event =
    Print msg
  | Kill int signal
  | Taskkill int
  | Sleep nat
  | Mkdir
  | Spawn target stdio

record world =
  pid_file :: "string option"
  clock :: nat
  trace :: "event list"

text \<open>
  A read of the record file starts with \<open>PID_FILE.exists()\<close>, which \<open>pathlib\<close> lets
  raise (for instance on a directory that may not be searched), and goes on with
  \<open>open(PID_FILE, 'r')\<close> and \<open>f.read()\<close>. A write is \<open>open(PID_FILE, 'w')\<close>, which
  leaves the file as it was when it raises, followed by \<open>f.write\<close> and the closing of
  the file, which leave an empty file when they raise.
\<close>

datatype read_fault = ExistsRaises exn | ReadRaises exn

datatype write_fault = OpenRaises exn | WriteRaises exn

text \<open>
  The answers of the operating system. \<open>win32\<close> is \<open>sys.platform == 'win32'\<close>,
  \<open>exe_exists\<close> is \<open>SERVER_EXECUTABLE.exists()\<close>, a truth value or an exception. The
  others answer the question asked at the given clock value: \<open>None\<close> for a call that
  returns, \<open>Some e\<close> for one that raises \<open>e\<close>. \<open>open_res\<close> answers a read of the
  record file: \<open>None\<close> when the existence check and the read both return.
  \<open>spawn_res\<close> gives the pid of the new child, \<open>wait_res\<close> is true when
  \<open>process.wait()\<close> is cut short by \<open>KeyboardInterrupt\<close>, \<open>poll_res\<close> is
  \<open>process.poll()\<close>. \<open>communicate_res\<close> is the captured output and error output of
  the child, each given by the text it decodes to, or \<open>None\<close> when \<open>decode()\<close>
  raises \<open>UnicodeDecodeError\<close> on it, which is a \<open>ValueError\<close>.
\<close>

record env =
  win32 :: bool
  exe_exists :: "exn + bool"
  open_res :: "nat \<Rightarrow> read_fault option"
  unlink_res :: "nat \<Rightarrow> exn option"
  write_res :: "nat \<Rightarrow> write_fault option"
  mkdir_res :: "nat \<Rightarrow> exn option"
  kill_res :: "nat \<Rightarrow> int \<Rightarrow> signal \<Rightarrow> exn option"
  taskkill_res :: "nat \<Rightarrow> int \<Rightarrow> exn option"
  spawn_res :: "nat \<Rightarrow> exn + int"
  wait_res :: "nat \<Rightarrow> bool"
  poll_res :: "nat \<Rightarrow> int option"
  communicate_res :: "nat \<Rightarrow> string option \<times> string option"

definition tick :: "world \<Rightarrow> world" where
  "tick w = w\<lparr>clock := Suc (clock w)\<rparr>"

definition emit :: "event \<Rightarrow> world \<Rightarrow> world" where
  "emit e w = w\<lparr>trace := trace w @ [e]\<rparr>"

definition print :: "msg \<Rightarrow> world \<Rightarrow> world" where
  "print m w = emit (Print m) w"

definition sleep :: "nat \<Rightarrow> world \<Rightarrow> world" where
  "sleep ms w = emit (Sleep ms) w"

text \<open>
  \<open>PID_FILE.unlink()\<close> on an existing file and \<open>PID_FILE.unlink(missing_ok=True)\<close>:
  the record is gone when the call returns and as it was when the call raises.
\<close>

definition unlink :: "env \<Rightarrow> world \<Rightarrow> exn option \<times> world" where
  "unlink E w =
     (case unlink_res E (clock w) of
        None \<Rightarrow> (None, tick (w\<lparr>pid_file := None\<rparr>))
      | Some e \<Rightarrow> (Some e, tick w))"

text \<open>\<open>with open(PID_FILE, 'w') as f: f.write(str(pid))\<close>\<close>

definition write_pid :: "env \<Rightarrow> int \<Rightarrow> world \<Rightarrow> exn option \<times> world" where
  "write_pid E pid w =
     (case write_res E (clock w) of
        None \<Rightarrow> (None, tick (w\<lparr>pid_file := Some (py_str pid)\<rparr>))
      | Some (OpenRaises e) \<Rightarrow> (Some e, tick w)
      | Some (WriteRaises e) \<Rightarrow> (Some e, tick (w\<lparr>pid_file := Some []\<rparr>)))"

text \<open>\<open>PID_FILE.parent.mkdir(parents=True, exist_ok=True)\<close>\<close>

definition mkdir :: "env \<Rightarrow> world \<Rightarrow> exn option \<times> world" where
  "mkdir E w = (mkdir_res E (clock w), tick (emit Mkdir w))"

text \<open>\<open>os.kill(pid, sig)\<close>\<close>

definition os_kill :: "env \<Rightarrow> int \<Rightarrow> signal \<Rightarrow> world \<Rightarrow> exn option \<times> world" where
  "os_kill E pid sg w = (kill_res E (clock w) pid sg, tick (emit (Kill pid sg) w))"

text \<open>\<open>subprocess.run(['taskkill', '/F', '/PID', str(pid)], capture_output=True, check=False)\<close>\<close>

definition taskkill :: "env \<Rightarrow> int \<Rightarrow> world \<Rightarrow> exn option \<times> world" where
  "taskkill E pid w = (taskkill_res E (clock w) pid, tick (emit (Taskkill pid) w))"

text \<open>\<open>subprocess.Popen(command, cwd=SERVER_DIR, ...)\<close>\<close>

definition popen :: "env \<Rightarrow> target \<Rightarrow> stdio \<Rightarrow> world \<Rightarrow> (exn + int) \<times> world" where
  "popen E cmd io w = (spawn_res E (clock w), tick (emit (Spawn cmd io) w))"

definition process_wait :: "env \<Rightarrow> world \<Rightarrow> bool \<times> world" where
  "process_wait E w = (wait_res E (clock w), tick w)"

definition process_poll :: "env \<Rightarrow> world \<Rightarrow> int option \<times> world" where
  "process_poll E w = (poll_res E (clock w), tick w)"

definition process_communicate ::
  "env \<Rightarrow> world \<Rightarrow> (string option \<times> string option) \<times> world" where
  "process_communicate E w = (communicate_res E (clock w), tick w)"

subsection \<open>The PID registry\<close>

text \<open>The two parts of the answer to a read: the fault of the existence check, and of the read.\<close>

definition exists_raises :: "read_fault option \<Rightarrow> exn option" where
  "exists_raises r = (case r of Some (ExistsRaises e) \<Rightarrow> Some e | _ \<Rightarrow> None)"

definition read_raises :: "read_fault option \<Rightarrow> exn option" where
  "read_raises r = (case r of Some (ReadRaises e) \<Rightarrow> Some e | _ \<Rightarrow> None)"

text \<open>
  \<open>get_server_pid\<close>. The existence check stands before the \<open>try\<close>: an exception it
  raises leaves the function. No record file gives \<open>None\<close>. A read that raises
  \<open>OSError\<close> or \<open>ValueError\<close>, and text that \<open>int\<close> rejects, end in the outer
  handler, which returns \<open>None\<close>. The probe \<open>os.kill(pid, 0)\<close> that raises
  \<open>OSError\<close> ends in the inner handler, which removes the record and returns \<open>None\<close>;
  when the removal raises \<open>OSError\<close> or \<open>ValueError\<close>, the outer handler returns
  \<open>None\<close> as well. A \<open>ValueError\<close> of the probe reaches the outer handler; any other
  exception leaves the function.
\<close>

definition get_server_pid :: "env \<Rightarrow> world \<Rightarrow> (exn + int option) \<times> world" where
  "get_server_pid E w =
     (case exists_raises (open_res E (clock w)) of
        Some e \<Rightarrow> (Inl e, tick w)
      | None \<Rightarrow>
          (case pid_file w of
             None \<Rightarrow> (Inr None, tick w)
           | Some content \<Rightarrow>
               (case read_raises (open_res E (clock w)) of
                  Some e \<Rightarrow>
                    if e = OSError \<or> e = ValueError then (Inr None, tick w) else (Inl e, tick w)
                | None \<Rightarrow>
                    (case py_int (py_strip content) of
                       None \<Rightarrow> (Inr None, tick w)
                     | Some pid \<Rightarrow>
                         (case os_kill E pid SIG0 (tick w) of
                            (None, w') \<Rightarrow> (Inr (Some pid), w')
                          | (Some e, w') \<Rightarrow>
                              if e = OSError then
                                (case unlink E w' of
                                   (None, w'') \<Rightarrow> (Inr None, w'')
                                 | (Some e', w'') \<Rightarrow>
                                     if e' = OSError \<or> e' = ValueError then (Inr None, w'')
                                     else (Inl e', w''))
                              else if e = ValueError then (Inr None, w')
                              else (Inl e, w'))))))"

definition is_server_running :: "env \<Rightarrow> world \<Rightarrow> (exn + bool) \<times> world" where
  "is_server_running E w =
     (case get_server_pid E w of
        (Inl e, w') \<Rightarrow> (Inl e, w')
      | (Inr p, w') \<Rightarrow> (Inr (p \<noteq> None), w'))"

definition status_server :: "env \<Rightarrow> world \<Rightarrow> (exn + unit) \<times> world" where
  "status_server E w =
     (case get_server_pid E w of
        (Inl e, w') \<Rightarrow> (Inl e, w')
      | (Inr None, w') \<Rightarrow> (Inr (), print MsgStatusStopped w')
      | (Inr (Some pid), w') \<Rightarrow> (Inr (), print (MsgStatusRunning pid) w'))"

subsection \<open>The shutdown escalator\<close>

text \<open>
  The first request of \<open>stop_server\<close>: \<open>taskkill /F\<close> on Windows,
  \<open>os.kill(pid, signal.SIGTERM)\<close> elsewhere; and its last resort: \<open>taskkill /F\<close> again
  on Windows, \<open>os.kill(pid, signal.SIGKILL)\<close> elsewhere.
\<close>

definition request_stop :: "env \<Rightarrow> int \<Rightarrow> world \<Rightarrow> exn option \<times> world" where
  "request_stop E pid w = (if win32 E then taskkill E pid w else os_kill E pid SIGTERM w)"

definition force_stop :: "env \<Rightarrow> int \<Rightarrow> world \<Rightarrow> exn option \<times> world" where
  "force_stop E pid w = (if win32 E then taskkill E pid w else os_kill E pid SIGKILL w)"

text \<open>
  The loop \<open>for _ in range(10)\<close> with the remaining number of rounds as argument: sleep
  half a second, probe, and \<open>break\<close> when the probe raises \<open>OSError\<close>. The result is
  \<open>Inr True\<close> after a \<open>break\<close> and \<open>Inr False\<close> when the rounds are used up, which
  is when Python runs the \<open>else\<close> branch of the loop. Any other exception of the probe
  leaves the loop.
\<close>

fun poll_loop :: "env \<Rightarrow> int \<Rightarrow> nat \<Rightarrow> world \<Rightarrow> (exn + bool) \<times> world" where
  "poll_loop E pid 0 w = (Inr False, w)"
| "poll_loop E pid (Suc n) w =
     (case os_kill E pid SIG0 (sleep 500 w) of
        (None, w') \<Rightarrow> poll_loop E pid n w'
      | (Some e, w') \<Rightarrow> if e = OSError then (Inr True, w') else (Inl e, w'))"

text \<open>
  The end of the \<open>try\<close> block: remove the record, report success. An exception of the
  removal leaves the block before the report.
\<close>

definition stop_finish :: "env \<Rightarrow> world \<Rightarrow> (exn + bool) \<times> world" where
  "stop_finish E w =
     (case unlink E w of
        (Some e, w') \<Rightarrow> (Inl e, w')
      | (None, w') \<Rightarrow> (Inr True, print MsgStopped w'))"

text \<open>The body of the \<open>try\<close> block of \<open>stop_server\<close>; \<open>Inl e\<close> is an exception raised in it.\<close>

definition stop_server_try :: "env \<Rightarrow> int \<Rightarrow> world \<Rightarrow> (exn + bool) \<times> world" where
  "stop_server_try E pid w =
     (case request_stop E pid w of
        (Some e, w1) \<Rightarrow> (Inl e, w1)
      | (None, w1) \<Rightarrow>
          (case poll_loop E pid 10 w1 of
             (Inl e, w2) \<Rightarrow> (Inl e, w2)
           | (Inr True, w2) \<Rightarrow> stop_finish E w2
           | (Inr False, w2) \<Rightarrow>
               (case force_stop E pid (print MsgForcing w2) of
                  (Some e, w3) \<Rightarrow> (Inl e, w3)
                | (None, w3) \<Rightarrow> stop_finish E w3)))"

text \<open>
  \<open>stop_server\<close>: the read stands before the \<open>try\<close>, so an exception of the read leaves
  the function; the handler \<open>except Exception\<close> prints the exception of the \<open>try\<close>
  block and returns \<open>False\<close>.
\<close>

definition stop_server :: "env \<Rightarrow> world \<Rightarrow> (exn + bool) \<times> world" where
  "stop_server E w =
     (case get_server_pid E w of
        (Inl e, w1) \<Rightarrow> (Inl e, w1)
      | (Inr None, w1) \<Rightarrow> (Inr False, print MsgNotRunning w1)
      | (Inr (Some pid), w1) \<Rightarrow>
          (case stop_server_try E pid (print (MsgStopping pid) w1) of
             (Inl e, w2) \<Rightarrow> (Inr False, print (MsgStopException e) w2)
           | (Inr b, w2) \<Rightarrow> (Inr b, w2)))"

subsection \<open>The process launcher\<close>

definition command :: "bool \<Rightarrow> target" where
  "command use_go = (if use_go then GoSource else Executable)"

text \<open>
  The \<open>finally\<close> clause of the foreground branch, run on each way out of the inner
  \<open>try\<close> with the outcome \<open>r\<close> reached so far: it removes the record; an exception
  of the removal replaces the outcome, otherwise the outcome stands.
\<close>

definition finally_unlink :: "env \<Rightarrow> (exn + bool) \<Rightarrow> world \<Rightarrow> (exn + bool) \<times> world" where
  "finally_unlink E r w =
     (case unlink E w of
        (Some e, w') \<Rightarrow> (Inl e, w')
      | (None, w') \<Rightarrow> (r, w'))"

text \<open>
  The foreground branch of the \<open>try\<close> block of \<open>start_server\<close>: spawn with inherited
  streams, write the record, wait. After the wait the branch returns \<open>True\<close>; so it does
  after the handler of \<open>KeyboardInterrupt\<close>, which calls \<open>stop_server\<close> and drops
  its result, unless \<open>stop_server\<close> raises.
\<close>

definition start_foreground :: "env \<Rightarrow> bool \<Rightarrow> world \<Rightarrow> (exn + bool) \<times> world" where
  "start_foreground E use_go w =
     (case popen E (command use_go) Inherit (print MsgForeground w) of
        (Inl e, w1) \<Rightarrow> (Inl e, w1)
      | (Inr child, w1) \<Rightarrow>
          (case write_pid E child w1 of
             (Some e, w2) \<Rightarrow> (Inl e, w2)
           | (None, w2) \<Rightarrow>
               (case process_wait E w2 of
                  (False, w3) \<Rightarrow> finally_unlink E (Inr True) w3
                | (True, w3) \<Rightarrow>
                    (case stop_server E (print MsgStoppingServer w3) of
                       (Inl e, w4) \<Rightarrow> finally_unlink E (Inl e) w4
                     | (Inr b, w4) \<Rightarrow> finally_unlink E (Inr True) w4))))"

text \<open>
  The end of the background branch for a child that has exited: print the failure and the
  captured error output when there is some, remove the record, return \<open>False\<close>.
  Error output that does not decode raises after the first line is printed.
\<close>

definition report_exit :: "env \<Rightarrow> string option \<Rightarrow> world \<Rightarrow> (exn + bool) \<times> world" where
  "report_exit E err w =
     (case err of
        None \<Rightarrow> (Inl ValueError, print MsgFailedToStart w)
      | Some text \<Rightarrow>
          (case unlink E ((if text \<noteq> [] then print (MsgChildError text) else id)
                            (print MsgFailedToStart w)) of
             (Some e, w') \<Rightarrow> (Inl e, w')
           | (None, w') \<Rightarrow> (Inr False, w')))"

text \<open>The background branch: spawn with pipes, write the record, sleep two seconds, poll.\<close>

definition start_background :: "env \<Rightarrow> bool \<Rightarrow> world \<Rightarrow> (exn + bool) \<times> world" where
  "start_background E use_go w =
     (case popen E (command use_go) Pipe w of
        (Inl e, w1) \<Rightarrow> (Inl e, w1)
      | (Inr child, w1) \<Rightarrow>
          (case write_pid E child w1 of
             (Some e, w2) \<Rightarrow> (Inl e, w2)
           | (None, w2) \<Rightarrow>
               (case process_poll E (sleep 2000 w2) of
                  (None, w3) \<Rightarrow> (Inr True, print (MsgStarted (command use_go) child) w3)
                | (Some rc, w3) \<Rightarrow>
                    (case process_communicate E w3 of
                       ((out, err), w4) \<Rightarrow> report_exit E err w4))))"

definition start_server_try :: "env \<Rightarrow> bool \<Rightarrow> bool \<Rightarrow> world \<Rightarrow> (exn + bool) \<times> world" where
  "start_server_try E foreground use_go w =
     (if foreground then start_foreground E use_go w else start_background E use_go w)"

text \<open>
  The launch: the part of \<open>start_server\<close> from the line that announces the start on. The
  creation of the directory stands before the \<open>try\<close>. The handler \<open>except Exception\<close>
  prints the exception of the \<open>try\<close> block, removes the record and returns \<open>False\<close>;
  an exception of that removal leaves the function.
\<close>

definition launch :: "env \<Rightarrow> bool \<Rightarrow> bool \<Rightarrow> world \<Rightarrow> (exn + bool) \<times> world" where
  "launch E foreground use_go w =
     (case mkdir E (print MsgStarting w) of
        (Some e, w1) \<Rightarrow> (Inl e, w1)
      | (None, w1) \<Rightarrow>
          (case start_server_try E foreground use_go w1 of
             (Inl e, w2) \<Rightarrow>
               (case unlink E (print (MsgStartException e) w2) of
                  (Some e', w3) \<Rightarrow> (Inl e', w3)
                | (None, w3) \<Rightarrow> (Inr False, w3))
           | (Inr b, w2) \<Rightarrow> (Inr b, w2)))"

text \<open>
  \<open>start_server\<close>: two reads of the registry when the server runs, one in
  \<open>is_server_running\<close> and one for the message; the existence check of the executable,
  which is skipped with \<open>use_go\<close>; the launch.
\<close>

definition start_server :: "env \<Rightarrow> bool \<Rightarrow> bool \<Rightarrow> world \<Rightarrow> (exn + bool) \<times> world" where
  "start_server E foreground use_go w =
     (case is_server_running E w of
        (Inl e, w1) \<Rightarrow> (Inl e, w1)
      | (Inr True, w1) \<Rightarrow>
          (case get_server_pid E w1 of
             (Inl e, w2) \<Rightarrow> (Inl e, w2)
           | (Inr p, w2) \<Rightarrow> (Inr False, print (MsgAlreadyRunning p) w2))
      | (Inr False, w1) \<Rightarrow>
          if use_go then launch E foreground use_go w1
          else
            (case exe_exists E of
               Inl e \<Rightarrow> (Inl e, w1)
             | Inr False \<Rightarrow> (Inr False, print MsgExecutableNotFound w1)
             | Inr True \<Rightarrow> launch E foreground use_go w1))"

subsection \<open>Restart\<close>

text \<open>
  \<open>restart_server\<close> returns nothing; the results of \<open>stop_server\<close> and
  \<open>start_server\<close> are dropped, an exception of either leaves the function.
\<close>

definition restart_server :: "env \<Rightarrow> world \<Rightarrow> (exn + unit) \<times> world" where
  "restart_server E w =
     (case stop_server E (print MsgRestarting w) of
        (Inl e, w1) \<Rightarrow> (Inl e, w1)
      | (Inr b, w1) \<Rightarrow>
          (case start_server E False False (sleep 1000 w1) of
             (Inl e, w2) \<Rightarrow> (Inl e, w2)
           | (Inr b', w2) \<Rightarrow> (Inr (), w2)))"

subsection \<open>The escalation order in the words of the specification\<close>

text \<open>
  The specification words the stop of a live pid as a first termination request, a poll for
  the absence of the process every half second for at most ten attempts that ends early
  once the process is absent, and a forced request when the process is still present after
  all attempts, with nothing after it. The definitions below say this over the answer
  tables, for a first request issued at clock value \<open>t\<close>; the requests are the ones of the
  platform. They are compared with \<open>stop_server\<close> further down.
\<close>

definition first_request :: "env \<Rightarrow> int \<Rightarrow> event" where
  "first_request E pid = (if win32 E then Taskkill pid else Kill pid SIGTERM)"

definition last_request :: "env \<Rightarrow> int \<Rightarrow> event" where
  "last_request E pid = (if win32 E then Taskkill pid else Kill pid SIGKILL)"

text \<open>The probe asked at clock value \<open>t\<close> reports that the process is absent.\<close>

definition absent :: "env \<Rightarrow> int \<Rightarrow> nat \<Rightarrow> bool" where
  "absent E pid t = (kill_res E t pid SIG0 = Some OSError)"

text \<open>The number of attempts made out of \<open>n\<close>, the first of them at clock value \<open>t\<close>.\<close>

fun attempts :: "env \<Rightarrow> int \<Rightarrow> nat \<Rightarrow> nat \<Rightarrow> nat" where
  "attempts E pid t 0 = 0"
| "attempts E pid t (Suc n) = (if absent E pid t then 1 else Suc (attempts E pid (Suc t) n))"

fun present_throughout :: "env \<Rightarrow> int \<Rightarrow> nat \<Rightarrow> nat \<Rightarrow> bool" where
  "present_throughout E pid t 0 = True"
| "present_throughout E pid t (Suc n) =
     (\<not> absent E pid t \<and> present_throughout E pid (Suc t) n)"

definition escalation :: "env \<Rightarrow> int \<Rightarrow> nat \<Rightarrow> event list" where
  "escalation E pid t =
     [first_request E pid]
     @ concat (replicate (attempts E pid (Suc t) 10) [Sleep 500, Kill pid SIG0])
     @ (if present_throughout E pid (Suc t) 10 then [last_request E pid] else [])"

text \<open>
  What a call did between two worlds, printed lines left out: the signals, \<open>taskkill\<close>
  runs, sleeps, directory creations and spawns.
\<close>

fun is_print :: "event \<Rightarrow> bool" where
  "is_print (Print m) = True"
| "is_print e = False"

definition actions_since :: "world \<Rightarrow> world \<Rightarrow> event list" where
  "actions_since w w' = filter (\<lambda>e. \<not> is_print e) (drop (length (trace w)) (trace w'))"

text \<open>
  The answer to the first request asked at clock value \<open>t\<close>; and: each of the \<open>n\<close>
  probes from clock value \<open>t\<close> on either returns or reports absence.
\<close>

definition request_res :: "env \<Rightarrow> nat \<Rightarrow> int \<Rightarrow> exn option" where
  "request_res E t pid = (if win32 E then taskkill_res E t pid else kill_res E t pid SIGTERM)"

fun probes_clean :: "env \<Rightarrow> int \<Rightarrow> nat \<Rightarrow> nat \<Rightarrow> bool" where
  "probes_clean E pid t 0 = True"
| "probes_clean E pid t (Suc n) =
     ((kill_res E t pid SIG0 = None \<or> kill_res E t pid SIG0 = Some OSError)
      \<and> probes_clean E pid (Suc t) n)"

text \<open>The number of rounds \<open>poll_loop\<close> runs: it stops at the first probe that raises.\<close>

fun polls_made :: "env \<Rightarrow> int \<Rightarrow> nat \<Rightarrow> nat \<Rightarrow> nat" where
  "polls_made E pid t 0 = 0"
| "polls_made E pid t (Suc n) =
     (if kill_res E t pid SIG0 = None then Suc (polls_made E pid (Suc t) n) else 1)"

subsection \<open>Reading a trace\<close>

text \<open>
  \<open>is_spawn\<close> tells the spawns among the events; \<open>background_default\<close> holds of an
  event unless it is a spawn other than the one of a start with default arguments: the
  executable, with piped streams. \<open>extends_with P w w'\<close> says that the trace of
  \<open>w'\<close> is the trace of \<open>w\<close> followed by events that all satisfy \<open>P\<close>, and
  \<open>printed_since w w'\<close> is the list of the lines printed between the two worlds.
\<close>

fun is_spawn :: "event \<Rightarrow> bool" where
  "is_spawn (Spawn tg io) = True"
| "is_spawn e = False"

fun background_default :: "event \<Rightarrow> bool" where
  "background_default (Spawn tg io) = (tg = Executable \<and> io = Pipe)"
| "background_default e = True"

definition extends_with :: "(event \<Rightarrow> bool) \<Rightarrow> world \<Rightarrow> world \<Rightarrow> bool" where
  "extends_with P w w' = (\<exists>evs. trace w' = trace w @ evs \<and> list_all P evs)"

definition printed_since :: "world \<Rightarrow> world \<Rightarrow> event list" where
  "printed_since w w' = filter is_print (drop (length (trace w)) (trace w'))"

subsection \<open>States without a live managed process\<close>

text \<open>
  \<open>record_stale\<close>: there is a record file, it can be read, its text parses as a pid and
  the probe of the read reports that the process is gone. \<open>no_live_process\<close>: the three
  states the specification lists, over the answers a read gets in them: no record file
  (and an existence check that returns); a record that can be read and does not parse; a
  stale record, whose removal raises nothing that leaves the read.
\<close>

definition record_stale :: "env \<Rightarrow> world \<Rightarrow> bool" where
  "record_stale E w =
     (case pid_file w of
        None \<Rightarrow> False
      | Some content \<Rightarrow>
          open_res E (clock w) = None \<and>
          (case py_int (py_strip content) of
             None \<Rightarrow> False
           | Some pid \<Rightarrow> kill_res E (Suc (clock w)) pid SIG0 = Some OSError))"

definition no_live_process :: "env \<Rightarrow> world \<Rightarrow> bool" where
  "no_live_process E w =
     (case pid_file w of
        None \<Rightarrow> exists_raises (open_res E (clock w)) = None
      | Some content \<Rightarrow>
          open_res E (clock w) = None \<and>
          (case py_int (py_strip content) of
             None \<Rightarrow> True
           | Some pid \<Rightarrow>
               kill_res E (Suc (clock w)) pid SIG0 = Some OSError
               \<and> unlink_res E (Suc (Suc (clock w))) \<noteq> Some OtherError))"

subsection \<open>The world at the interruption of a foreground wait\<close>

text \<open>
  The world in which the handler of \<open>KeyboardInterrupt\<close> calls \<open>stop_server\<close>: the
  one the launch from \<open>w\<close> has reached when the wait for \<open>child\<close> is cut short and
  the line that announces the stop is printed.
\<close>

definition world_at_interrupt :: "env \<Rightarrow> bool \<Rightarrow> int \<Rightarrow> world \<Rightarrow> world" where
  "world_at_interrupt E use_go child w =
     print MsgStoppingServer
       (snd (process_wait E
          (snd (write_pid E child
             (snd (popen E (command use_go) Inherit
                (print MsgForeground (snd (mkdir E (print MsgStarting w))))))))))"

text \<open>
  The answer to the forced request asked at clock value \<open>t\<close>; and: each of the \<open>n\<close>
  probes from clock value \<open>t\<close> on returns, which is how a probe reports a process that
  is there.
\<close>

definition force_res :: "env \<Rightarrow> nat \<Rightarrow> int \<Rightarrow> exn option" where
  "force_res E t pid = (if win32 E then taskkill_res E t pid else kill_res E t pid SIGKILL)"

fun probes_return :: "env \<Rightarrow> int \<Rightarrow> nat \<Rightarrow> nat \<Rightarrow> bool" where
  "probes_return E pid t 0 = True"
| "probes_return E pid t (Suc n) =
     (kill_res E t pid SIG0 = None \<and> probes_return E pid (Suc t) n)"

text \<open>
  A signal primitive raises \<open>e\<close> in a stop whose first request is asked at clock value
  \<open>t\<close>: the first request does; or it returns and one of the ten probes raises
  \<open>e\<close>, which is not the \<open>OSError\<close> that reports absence, after probes that
  returned; or the first request and ten probes return and the forced request raises
  \<open>e\<close>.
\<close>

definition signal_raises :: "env \<Rightarrow> int \<Rightarrow> nat \<Rightarrow> exn \<Rightarrow> bool" where
  "signal_raises E pid t e =
     (request_res E t pid = Some e
      \<or> request_res E t pid = None \<and>
          (\<exists>k\<in>{0..<10}. probes_return E pid (Suc t) k
                         \<and> kill_res E (Suc t + k) pid SIG0 = Some e \<and> e \<noteq> OSError)
      \<or> request_res E t pid = None \<and> probes_return E pid (Suc t) 10
          \<and> force_res E (t + 11) pid = Some e)"

subsection \<open>Concrete environments and worlds\<close>

text \<open>
  \<open>env0\<close> is a POSIX machine on which the executable exists, every call returns, every
  probed process is there, each spawn gives pid 4242, the foreground wait ends by itself and
  a polled child is still running. The others differ from it in one answer.
\<close>

definition env0 :: env where
  "env0 = \<lparr>win32 = False, exe_exists = Inr True, open_res = (\<lambda>t. None),
     unlink_res = (\<lambda>t. None), write_res = (\<lambda>t. None), mkdir_res = (\<lambda>t. None),
     kill_res = (\<lambda>t pid sg. None), taskkill_res = (\<lambda>t pid. None),
     spawn_res = (\<lambda>t. Inr 4242), wait_res = (\<lambda>t. False), poll_res = (\<lambda>t. None),
     communicate_res = (\<lambda>t. (Some [], Some []))\<rparr>"

definition env_stale :: env where
  "env_stale = env0\<lparr>kill_res := (\<lambda>t pid sg. Some OSError)\<rparr>"

text \<open>A process that is gone, and a record file that cannot be removed.\<close>

definition env_stuck :: env where
  "env_stuck = env_stale\<lparr>unlink_res := (\<lambda>t. Some OSError)\<rparr>"

text \<open>A record file that is there and cannot be read; and one that cannot be looked for.\<close>

definition env_unreadable :: env where
  "env_unreadable = env0\<lparr>open_res := (\<lambda>t. Some (ReadRaises OSError))\<rparr>"

definition env_no_access :: env where
  "env_no_access = env0\<lparr>open_res := (\<lambda>t. Some (ExistsRaises OSError))\<rparr>"

definition env_term_fails :: env where
  "env_term_fails =
     env0\<lparr>kill_res := (\<lambda>t pid sg. if sg = SIGTERM then Some OSError else None)\<rparr>"

text \<open>A process that ignores \<open>SIGTERM\<close> and may not be sent \<open>SIGKILL\<close>.\<close>

definition env_kill_fails :: env where
  "env_kill_fails =
     env0\<lparr>kill_res := (\<lambda>t pid sg. if sg = SIGKILL then Some OSError else None)\<rparr>"

definition env_win32 :: env where
  "env_win32 = env0\<lparr>win32 := True\<rparr>"

text \<open>A process that is gone from clock value 5 on; and one that is gone from 3 on.\<close>

definition env_exits :: env where
  "env_exits =
     env0\<lparr>kill_res := (\<lambda>t pid sg. if sg = SIG0 \<and> 5 \<le> t then Some OSError else None)\<rparr>"

definition env_dies :: env where
  "env_dies =
     env0\<lparr>kill_res := (\<lambda>t pid sg. if sg = SIG0 \<and> 3 \<le> t then Some OSError else None)\<rparr>"

text \<open>
  A child that has exited with status 1 when it is polled, having written \<open>boom\<close> to
  its error output; the same where the record file cannot be removed; the same where the
  error output is not valid UTF-8; and \<open>env0\<close> where the record file cannot be
  removed.
\<close>

definition env_crash :: env where
  "env_crash =
     env0\<lparr>poll_res := (\<lambda>t. Some 1), communicate_res := (\<lambda>t. (Some [], Some ''boom''))\<rparr>"

definition env_crash_jammed :: env where
  "env_crash_jammed = env_crash\<lparr>unlink_res := (\<lambda>t. Some OSError)\<rparr>"

definition env_garbled :: env where
  "env_garbled = env_crash\<lparr>communicate_res := (\<lambda>t. (Some [], None))\<rparr>"

definition env_jammed :: env where
  "env_jammed = env0\<lparr>unlink_res := (\<lambda>t. Some OSError)\<rparr>"

text \<open>
  A foreground wait that the user interrupts, with a child that is gone from clock value 8
  on, which is after the termination request of the stop; and a spawn that raises.
\<close>

definition env_interrupt :: env where
  "env_interrupt =
     env0\<lparr>wait_res := (\<lambda>t. True),
          kill_res := (\<lambda>t pid sg. if sg = SIG0 \<and> 8 \<le> t then Some OSError else None)\<rparr>"

definition env_spawn_fails :: env where
  "env_spawn_fails = env0\<lparr>spawn_res := (\<lambda>t. Inl OSError)\<rparr>"

definition world0 :: world where
  "world0 = \<lparr>pid_file = None, clock = 0, trace = []\<rparr>"

definition world_of :: "string \<Rightarrow> world" where
  "world_of content = \<lparr>pid_file = Some content, clock = 0, trace = []\<rparr>"

text \<open>The world after one read of a record that found its process alive.\<close>

definition world_probed :: "string \<Rightarrow> int \<Rightarrow> world" where
  "world_probed content pid = \<lparr>pid_file = Some content, clock = 2, trace = [Kill pid SIG0]\<rparr>"

section \<open>Properties\<close>

subsection \<open>Fields of the world under the primitive steps\<close>

lemma pid_file_simps [simp]:
  "pid_file (tick w) = pid_file w"
  "pid_file (emit e w) = pid_file w"
  "pid_file (print m w) = pid_file w"
  "pid_file (sleep ms w) = pid_file w"
  by (simp_all add: tick_def emit_def print_def sleep_def)

lemma trace_simps [simp]:
  "trace (tick w) = trace w"
  "trace (emit e w) = trace w @ [e]"
  "trace (print m w) = trace w @ [Print m]"
  "trace (sleep ms w) = trace w @ [Sleep ms]"
  by (simp_all add: tick_def emit_def print_def sleep_def)

lemma clock_simps [simp]:
  "clock (tick w) = Suc (clock w)"
  "clock (emit e w) = clock w"
  "clock (print m w) = clock w"
  "clock (sleep ms w) = clock w"
  by (simp_all add: tick_def emit_def print_def sleep_def)

lemma raises_simps [simp]:
  "exists_raises None = None"
  "exists_raises (Some (ExistsRaises e)) = Some e"
  "exists_raises (Some (ReadRaises e)) = None"
  "read_raises None = None"
  "read_raises (Some (ExistsRaises e)) = None"
  "read_raises (Some (ReadRaises e)) = Some e"
  by (simp_all add: exists_raises_def read_raises_def)

lemma unlink_facts [simp]:
  "fst (unlink E w) = unlink_res E (clock w)"
  "pid_file (snd (unlink E w)) = (if unlink_res E (clock w) = None then None else pid_file w)"
  "trace (snd (unlink E w)) = trace w"
  "clock (snd (unlink E w)) = Suc (clock w)"
  by (simp_all add: unlink_def split: option.splits)

lemma mkdir_facts [simp]:
  "fst (mkdir E w) = mkdir_res E (clock w)"
  "pid_file (snd (mkdir E w)) = pid_file w"
  "trace (snd (mkdir E w)) = trace w @ [Mkdir]"
  "clock (snd (mkdir E w)) = Suc (clock w)"
  by (simp_all add: mkdir_def)

lemma write_pid_facts [simp]:
  "fst (write_pid E pid w) = None \<longleftrightarrow> write_res E (clock w) = None"
  "write_res E (clock w) = None \<Longrightarrow> pid_file (snd (write_pid E pid w)) = Some (py_str pid)"
  "trace (snd (write_pid E pid w)) = trace w"
  "clock (snd (write_pid E pid w)) = Suc (clock w)"
  by (simp_all add: write_pid_def split: option.splits write_fault.splits)

subsection \<open>The self-healing read\<close>

text \<open>
  Claim C1 says that the read of a record whose pid belongs to no process returns
  \<open>None\<close> and that the record file is gone afterwards. The removal
  \<open>PID_FILE.unlink()\<close> stands in the inner handler, inside the outer \<open>try\<close>: when it
  raises \<open>OSError\<close>, the outer handler \<open>except (ValueError, IOError)\<close> returns
  \<open>None\<close> and the record file is still there. So it is on the record \<open>999999999\<close>
  of a process that does not exist, where the file cannot be removed.
\<close>

theorem stale_record_stays_counterexample:
  "pid_file (world_of ''999999999'') = Some ''999999999''
   \<and> open_res env_stuck (clock (world_of ''999999999'')) = None
   \<and> py_int (py_strip ''999999999'') = Some 999999999
   \<and> kill_res env_stuck (Suc (clock (world_of ''999999999''))) 999999999 SIG0 = Some OSError
   \<and> fst (get_server_pid env_stuck (world_of ''999999999'')) = Inr None
   \<and> pid_file (snd (get_server_pid env_stuck (world_of ''999999999''))) = Some ''999999999''"
proof -
  have p: "py_int (py_strip ''999999999'') = Some 999999999"
    by code_simp
  show ?thesis
    by (simp add: p get_server_pid_def os_kill_def unlink_def world_of_def env_stuck_def
          env_stale_def env0_def)
qed

text \<open>
  Claim C1 as amended. When the record file holds text that parses as an integer pid and
  the probe \<open>os.kill(pid, 0)\<close> issued by the read reports that the process does not exist
  (it raises \<open>OSError\<close>), \<open>get_server_pid\<close> tries to remove the record file and
  returns \<open>None\<close>, whether the removal returns or raises an error the outer handler
  catches (\<open>OSError\<close>, \<open>ValueError\<close>); the record file is gone afterwards when the
  removal returns, and as it was when the removal raises. \<open>status_server\<close> on such a
  record probes once and prints the stopped status, not the running one, and leaves the
  record file in the same state as the read does.
\<close>

theorem stale_record_self_heals:
  assumes "pid_file w = Some content"
    and "open_res E (clock w) = None"
    and "py_int (py_strip content) = Some pid"
    and "kill_res E (Suc (clock w)) pid SIG0 = Some OSError"
    and "unlink_res E (Suc (Suc (clock w))) \<noteq> Some OtherError"
  shows "fst (get_server_pid E w) = Inr None
       \<and> pid_file (snd (get_server_pid E w))
           = (if unlink_res E (Suc (Suc (clock w))) = None then None else Some content)
       \<and> fst (status_server E w) = Inr ()
       \<and> trace (snd (status_server E w)) = trace w @ [Kill pid SIG0, Print MsgStatusStopped]
       \<and> pid_file (snd (status_server E w))
           = (if unlink_res E (Suc (Suc (clock w))) = None then None else Some content)"
proof -
  let ?w' = "tick (emit (Kill pid SIG0) (tick w))"
  have g: "get_server_pid E w = (Inr None, snd (unlink E ?w'))"
  proof (cases "unlink_res E (Suc (Suc (clock w)))")
    case None
    with assms show ?thesis
      by (simp add: get_server_pid_def os_kill_def unlink_def)
  next
    case (Some e)
    with assms(5) have "e = OSError \<or> e = ValueError"
      by (cases e) simp_all
    with Some assms(1-4) show ?thesis
      by (auto simp add: get_server_pid_def os_kill_def unlink_def)
  qed
  from assms(1) show ?thesis
    by (simp add: g status_server_def)
qed

theorem stale_record_self_heals_witness:
  "pid_file (world_of ''999999999'') = Some ''999999999''
   \<and> open_res env_stale (clock (world_of ''999999999'')) = None
   \<and> py_int (py_strip ''999999999'') = Some 999999999
   \<and> kill_res env_stale (Suc (clock (world_of ''999999999''))) 999999999 SIG0 = Some OSError
   \<and> unlink_res env_stale (Suc (Suc (clock (world_of ''999999999'')))) = None
   \<and> fst (get_server_pid env_stale (world_of ''999999999'')) = Inr None
   \<and> pid_file (snd (get_server_pid env_stale (world_of ''999999999''))) = None
   \<and> fst (status_server env_stale (world_of ''999999999'')) = Inr ()
   \<and> trace (snd (status_server env_stale (world_of ''999999999'')))
        = trace (world_of ''999999999'') @ [Kill 999999999 SIG0, Print MsgStatusStopped]
   \<and> pid_file (snd (status_server env_stale (world_of ''999999999''))) = None"
proof -
  have h1: "pid_file (world_of ''999999999'') = Some ''999999999''"
    by (simp add: world_of_def)
  have h2: "open_res env_stale (clock (world_of ''999999999'')) = None"
    by (simp add: env_stale_def env0_def)
  have h3: "py_int (py_strip ''999999999'') = Some 999999999"
    by code_simp
  have h4: "kill_res env_stale (Suc (clock (world_of ''999999999''))) 999999999 SIG0
              = Some OSError"
    by (simp add: env_stale_def env0_def)
  have h5: "unlink_res env_stale (Suc (Suc (clock (world_of ''999999999'')))) = None"
    by (simp add: env_stale_def env0_def)
  have h5': "unlink_res env_stale (Suc (Suc (clock (world_of ''999999999'')))) \<noteq> Some OtherError"
    by (simp add: h5)
  from stale_record_self_heals [OF h1 h2 h3 h4 h5'] h1 h2 h3 h4 h5 show ?thesis
    by simp
qed

subsection \<open>A record file that cannot be read\<close>

text \<open>
  Claim C2 says that a read of an existing record file that fails with an I/O error is
  surfaced to the caller as an error. The handler \<open>except (ValueError, IOError)\<close> of
  \<open>get_server_pid\<close> turns it into \<open>None\<close>: on a record holding \<open>4242\<close> whose read
  raises \<open>OSError\<close> the function returns \<open>None\<close>, no exception.
\<close>

theorem unreadable_record_no_error_counterexample:
  "pid_file (world_of ''4242'') = Some ''4242''
   \<and> open_res env_unreadable (clock (world_of ''4242'')) = Some (ReadRaises OSError)
   \<and> fst (get_server_pid env_unreadable (world_of ''4242'')) = Inr None"
  by (simp add: get_server_pid_def world_of_def env_unreadable_def env0_def)

text \<open>
  Claim C2 as amended. A read of an existing record file that fails with an I/O error
  (\<open>OSError\<close>) surfaces the error to the caller only when the failing step is the
  existence check \<open>PID_FILE.exists()\<close>, which stands before the \<open>try\<close>; when opening
  or reading the file fails, \<open>get_server_pid\<close> returns \<open>None\<close> and raises nothing.
  The record file is as it was in both cases.
\<close>

theorem unreadable_record_outcome:
  assumes "pid_file w = Some content"
  shows "(open_res E (clock w) = Some (ReadRaises OSError) \<longrightarrow>
            fst (get_server_pid E w) = Inr None)
       \<and> (open_res E (clock w) = Some (ExistsRaises OSError) \<longrightarrow>
            fst (get_server_pid E w) = Inl OSError)
       \<and> (open_res E (clock w) \<noteq> None \<longrightarrow>
            pid_file (snd (get_server_pid E w)) = Some content)"
proof -
  have "open_res E (clock w) = Some f \<Longrightarrow> pid_file (snd (get_server_pid E w)) = Some content"
    for f
    using assms by (cases f) (simp_all add: get_server_pid_def)
  with assms show ?thesis
    by (auto simp add: get_server_pid_def)
qed

theorem unreadable_record_outcome_witness:
  "pid_file (world_of ''4242'') = Some ''4242''
   \<and> open_res env_unreadable (clock (world_of ''4242'')) = Some (ReadRaises OSError)
   \<and> fst (get_server_pid env_unreadable (world_of ''4242'')) = Inr None
   \<and> pid_file (snd (get_server_pid env_unreadable (world_of ''4242''))) = Some ''4242''
   \<and> open_res env_no_access (clock (world_of ''4242'')) = Some (ExistsRaises OSError)
   \<and> fst (get_server_pid env_no_access (world_of ''4242'')) = Inl OSError
   \<and> pid_file (snd (get_server_pid env_no_access (world_of ''4242''))) = Some ''4242''"
proof -
  have h1: "pid_file (world_of ''4242'') = Some ''4242''"
    by (simp add: world_of_def)
  have h2: "open_res env_unreadable (clock (world_of ''4242'')) = Some (ReadRaises OSError)"
    by (simp add: env_unreadable_def env0_def)
  have h3: "open_res env_no_access (clock (world_of ''4242'')) = Some (ExistsRaises OSError)"
    by (simp add: env_no_access_def env0_def)
  from unreadable_record_outcome [OF h1, of env_unreadable]
    unreadable_record_outcome [OF h1, of env_no_access] h1 h2 h3
  show ?thesis
    by simp
qed

subsection \<open>A read that finds the process alive\<close>

lemma get_server_pid_Some:
  assumes "get_server_pid E w = (Inr (Some pid), w1)"
  shows "pid_file w1 = pid_file w"
    and "\<exists>content. pid_file w = Some content \<and> py_int (py_strip content) = Some pid"
    and "trace w1 = trace w @ [Kill pid SIG0]"
    and "clock w1 = Suc (Suc (clock w))"
    and "open_res E (clock w) = None"
    and "kill_res E (Suc (clock w)) pid SIG0 = None"
proof -
  from assms have e: "exists_raises (open_res E (clock w)) = None"
    by (auto simp add: get_server_pid_def split: option.splits)
  from assms e obtain content where c: "pid_file w = Some content"
    by (auto simp add: get_server_pid_def split: option.splits)
  from assms e c have r: "read_raises (open_res E (clock w)) = None"
    by (auto simp add: get_server_pid_def split: option.splits if_splits)
  from e r show o: "open_res E (clock w) = None"
    by (cases "open_res E (clock w)") (auto simp add: exists_raises_def read_raises_def
          split: read_fault.splits)
  from assms e c r have p: "py_int (py_strip content) = Some pid"
    and k: "kill_res E (Suc (clock w)) pid SIG0 = None"
    and w1: "w1 = tick (emit (Kill pid SIG0) (tick w))"
    by (auto simp add: get_server_pid_def os_kill_def unlink_def
          split: option.splits if_splits)
  from k show "kill_res E (Suc (clock w)) pid SIG0 = None" .
  from c p show "\<exists>content. pid_file w = Some content \<and> py_int (py_strip content) = Some pid"
    by blast
  from w1 show "pid_file w1 = pid_file w" "trace w1 = trace w @ [Kill pid SIG0]"
    "clock w1 = Suc (Suc (clock w))"
    by simp_all
qed

lemma get_server_pid_live:
  assumes "pid_file w = Some content"
    and "open_res E (clock w) = None"
    and "py_int (py_strip content) = Some pid"
    and "kill_res E (Suc (clock w)) pid SIG0 = None"
  shows "get_server_pid E w = (Inr (Some pid), tick (emit (Kill pid SIG0) (tick w)))"
  using assms by (simp add: get_server_pid_def os_kill_def)

lemma parse_4242: "py_int (py_strip ''4242'') = Some 4242"
  by code_simp

lemma get_server_pid_4242:
  assumes "open_res E 0 = None" and "kill_res E 1 4242 SIG0 = None"
  shows "get_server_pid E (world_of ''4242'') = (Inr (Some 4242), world_probed ''4242'' 4242)"
  using assms
  by (simp add: get_server_pid_def parse_4242 os_kill_def world_of_def world_probed_def
        tick_def emit_def)

subsection \<open>The poll loop and the try block of \<open>stop_server\<close>\<close>

lemma poll_loop_pid_file [simp]: "pid_file (snd (poll_loop E pid n w)) = pid_file w"
  by (induction n arbitrary: w) (auto simp add: os_kill_def split: option.splits)

lemma poll_loop_trace:
  "trace (snd (poll_loop E pid n w))
     = trace w @ concat (replicate (polls_made E pid (clock w) n) [Sleep 500, Kill pid SIG0])"
  by (induction n arbitrary: w) (auto simp add: os_kill_def split: option.splits)

lemma polls_made_le: "polls_made E pid t n \<le> attempts E pid t n"
  by (induction n arbitrary: t) (auto simp add: absent_def)

lemma poll_loop_returns:
  "fst (poll_loop E pid n w) = Inr b \<Longrightarrow>
     polls_made E pid (clock w) n = attempts E pid (clock w) n
     \<and> present_throughout E pid (clock w) n = (\<not> b)"
proof (induction n arbitrary: w)
  case 0
  then show ?case by simp
next
  case (Suc n)
  let ?w' = "tick (emit (Kill pid SIG0) (sleep 500 w))"
  show ?case
  proof (cases "kill_res E (clock w) pid SIG0")
    case None
    with Suc.prems have "fst (poll_loop E pid n ?w') = Inr b"
      by (simp add: os_kill_def)
    from Suc.IH [OF this] None show ?thesis
      by (simp add: absent_def)
  next
    case (Some e)
    with Suc.prems show ?thesis
      by (auto simp add: os_kill_def absent_def split: if_splits)
  qed
qed

lemma poll_loop_clean:
  "probes_clean E pid (clock w) n \<Longrightarrow> \<exists>b. fst (poll_loop E pid n w) = Inr b"
proof (induction n arbitrary: w)
  case 0
  show ?case by auto
next
  case (Suc n)
  let ?w' = "tick (emit (Kill pid SIG0) (sleep 500 w))"
  from Suc.prems have c: "probes_clean E pid (clock ?w') n" by simp
  from Suc.prems Suc.IH [OF c] show ?case
    by (auto simp add: os_kill_def split: option.splits)
qed

text \<open>Ten probes that return use up the rounds; a probe that raises another error ends them.\<close>

lemma poll_loop_exhausted:
  "probes_return E pid (clock w) n \<Longrightarrow>
     fst (poll_loop E pid n w) = Inr False \<and> clock (snd (poll_loop E pid n w)) = clock w + n"
proof (induction n arbitrary: w)
  case 0
  show ?case by simp
next
  case (Suc n)
  let ?w' = "tick (emit (Kill pid SIG0) (sleep 500 w))"
  from Suc.prems have c: "probes_return E pid (clock ?w') n" by simp
  from Suc.prems Suc.IH [OF c] show ?case
    by (simp add: os_kill_def)
qed

lemma poll_loop_raises:
  "k < n \<Longrightarrow> probes_return E pid (clock w) k \<Longrightarrow>
     kill_res E (clock w + k) pid SIG0 = Some e \<Longrightarrow> e \<noteq> OSError \<Longrightarrow>
     fst (poll_loop E pid n w) = Inl e"
proof (induction n arbitrary: w k)
  case 0
  then show ?case by simp
next
  case (Suc n)
  let ?w' = "tick (emit (Kill pid SIG0) (sleep 500 w))"
  show ?case
  proof (cases k)
    case 0
    with Suc.prems show ?thesis
      by (simp add: os_kill_def)
  next
    case (Suc j)
    with Suc.prems have j: "j < n" "probes_return E pid (clock ?w') j"
      "kill_res E (clock ?w' + j) pid SIG0 = Some e" "kill_res E (clock w) pid SIG0 = None"
      by simp_all
    from Suc.IH [OF j(1,2,3) Suc.prems(4)] j(4) show ?thesis
      by (simp add: os_kill_def)
  qed
qed

lemma request_stop_facts:
  "fst (request_stop E pid w) = request_res E (clock w) pid"
  "trace (snd (request_stop E pid w)) = trace w @ [first_request E pid]"
  "clock (snd (request_stop E pid w)) = Suc (clock w)"
  by (simp_all add: request_stop_def request_res_def first_request_def taskkill_def os_kill_def)

lemma force_stop_facts:
  "trace (snd (force_stop E pid w)) = trace w @ [last_request E pid]"
  "clock (snd (force_stop E pid w)) = Suc (clock w)"
  "fst (force_stop E pid w) = force_res E (clock w) pid"
  by (simp_all add: force_stop_def force_res_def last_request_def taskkill_def os_kill_def)

lemma request_stop_pid_file [simp]: "pid_file (snd (request_stop E pid w)) = pid_file w"
  by (simp add: request_stop_def taskkill_def os_kill_def)

lemma force_stop_pid_file [simp]: "pid_file (snd (force_stop E pid w)) = pid_file w"
  by (simp add: force_stop_def taskkill_def os_kill_def)

lemma stop_finish_facts:
  "fst (stop_finish E w) = (case unlink_res E (clock w) of None \<Rightarrow> Inr True | Some e \<Rightarrow> Inl e)"
  "trace (snd (stop_finish E w))
     = trace w @ (if unlink_res E (clock w) = None then [Print MsgStopped] else [])"
  "pid_file (snd (stop_finish E w)) = (if unlink_res E (clock w) = None then None else pid_file w)"
  by (simp_all add: stop_finish_def unlink_def split: option.splits)

text \<open>An exception that leaves the try block leaves the record file as it was.\<close>

lemma stop_server_try_raises_pid_file:
  assumes "stop_server_try E pid w = (Inl e, w')"
  shows "pid_file w' = pid_file w"
proof -
  obtain r1 w1 where r1: "request_stop E pid w = (r1, w1)"
    by (cases "request_stop E pid w")
  obtain r2 w2 where r2: "poll_loop E pid 10 w1 = (r2, w2)"
    by (cases "poll_loop E pid 10 w1")
  obtain r3 w3 where r3: "force_stop E pid (print MsgForcing w2) = (r3, w3)"
    by (cases "force_stop E pid (print MsgForcing w2)")
  have p1: "pid_file w1 = pid_file w"
    using request_stop_pid_file [of E pid w] r1 by simp
  have p2: "pid_file w2 = pid_file w1"
    using poll_loop_pid_file [of E pid 10 w1] r2 by simp
  have p3: "pid_file w3 = pid_file w2"
    using force_stop_pid_file [of E pid "print MsgForcing w2"] r3 by simp
  have f: "stop_finish E v = (Inl e, w') \<Longrightarrow> pid_file w' = pid_file v" for v
    by (auto simp add: stop_finish_def unlink_def split: option.splits)
  from assms r1 r2 r3 p1 p2 p3 f [of w2] f [of w3] show ?thesis
    by (auto simp add: stop_server_try_def split: option.splits sum.splits bool.splits if_splits)
qed

text \<open>The three ways a signal primitive makes the try block raise.\<close>

lemma request_raises:
  assumes "request_res E (clock w) pid = Some e"
  shows "fst (stop_server_try E pid w) = Inl e"
  using assms request_stop_facts(1) [of E pid w]
  by (cases "request_stop E pid w") (simp add: stop_server_try_def)

lemma probe_raises:
  assumes "request_res E (clock w) pid = None"
    and "k < 10" and "probes_return E pid (Suc (clock w)) k"
    and "kill_res E (Suc (clock w) + k) pid SIG0 = Some e" and "e \<noteq> OSError"
  shows "fst (stop_server_try E pid w) = Inl e"
proof -
  obtain r1 w1 where r1: "request_stop E pid w = (r1, w1)"
    by (cases "request_stop E pid w")
  have c1: "clock w1 = Suc (clock w)" "r1 = None"
    using request_stop_facts(1,3) [of E pid w] r1 assms(1) by simp_all
  from assms(3,4) c1 have "probes_return E pid (clock w1) k"
    "kill_res E (clock w1 + k) pid SIG0 = Some e"
    by simp_all
  from poll_loop_raises [OF assms(2) this assms(5)]
  have "fst (poll_loop E pid 10 w1) = Inl e" .
  with r1 c1 show ?thesis
    by (cases "poll_loop E pid 10 w1") (simp add: stop_server_try_def)
qed

lemma force_raises:
  assumes "request_res E (clock w) pid = None"
    and "probes_return E pid (Suc (clock w)) 10"
    and "force_res E (clock w + 11) pid = Some e"
  shows "fst (stop_server_try E pid w) = Inl e"
proof -
  obtain r1 w1 where r1: "request_stop E pid w = (r1, w1)"
    by (cases "request_stop E pid w")
  have c1: "clock w1 = Suc (clock w)" "r1 = None"
    using request_stop_facts(1,3) [of E pid w] r1 assms(1) by simp_all
  obtain r2 w2 where r2: "poll_loop E pid 10 w1 = (r2, w2)"
    by (cases "poll_loop E pid 10 w1")
  from assms(2) c1 have "probes_return E pid (clock w1) 10" by simp
  from poll_loop_exhausted [OF this] r2 c1
  have c2: "r2 = Inr False" "clock w2 = clock w + 11"
    by simp_all
  have "fst (force_stop E pid (print MsgForcing w2)) = Some e"
    using force_stop_facts(3) [of E pid "print MsgForcing w2"] c2 assms(3) by simp
  with r1 c1 r2 c2 show ?thesis
    by (cases "force_stop E pid (print MsgForcing w2)") (simp add: stop_server_try_def)
qed

subsection \<open>A signal primitive that raises\<close>

text \<open>
  Claim C3 says that when a signal primitive raises during the stop of a live pid,
  \<open>stop_server\<close> reports a failure and still clears the record file. The removal of
  the record is the last step inside the \<open>try\<close> block; the handler
  \<open>except Exception\<close> prints and returns \<open>False\<close> without it. On a record holding
  \<open>4242\<close> whose process is alive and whose \<open>SIGTERM\<close> raises \<open>OSError\<close>, the
  call returns \<open>False\<close> and the record still holds \<open>4242\<close>.
\<close>

theorem signal_error_clears_record_counterexample:
  "fst (get_server_pid env_term_fails (world_of ''4242'')) = Inr (Some 4242)
   \<and> kill_res env_term_fails 2 4242 SIGTERM = Some OSError
   \<and> fst (stop_server env_term_fails (world_of ''4242'')) = Inr False
   \<and> pid_file (snd (stop_server env_term_fails (world_of ''4242''))) = Some ''4242''
   \<and> trace (snd (stop_server env_term_fails (world_of ''4242'')))
       = [Kill 4242 SIG0, Print (MsgStopping 4242), Kill 4242 SIGTERM,
          Print (MsgStopException OSError)]"
  by (simp add: stop_server_def stop_server_try_def request_stop_def get_server_pid_def
        parse_4242 os_kill_def world_of_def env_term_fails_def env0_def)

text \<open>
  Claim C3 as amended. For every stop call on a live pid in which a signal primitive raises
  an error, \<open>stop_server\<close> catches the error, prints the failure and returns
  \<open>False\<close>, and the record file is left in place as it was. The primitive that raises
  is the first request of the platform; or one of the ten probes, all probes before it
  having returned, with an error other than the \<open>OSError\<close> by which a probe reports
  that the process is gone; or the forced request, sent after ten probes that returned.
\<close>

theorem signal_error_keeps_record:
  assumes "get_server_pid E w = (Inr (Some pid), w1)"
    and "signal_raises E pid (clock w1) e"
  shows "fst (stop_server E w) = Inr False
       \<and> last (trace (snd (stop_server E w))) = Print (MsgStopException e)
       \<and> pid_file (snd (stop_server E w)) = pid_file w
       \<and> pid_file w \<noteq> None"
proof -
  let ?w = "print (MsgStopping pid) w1"
  have "fst (stop_server_try E pid ?w) = Inl e"
    using assms(2) request_raises [of E ?w pid e] probe_raises [of E ?w pid _ e]
      force_raises [of E ?w pid e]
    by (auto simp add: signal_raises_def)
  then obtain w2 where t: "stop_server_try E pid ?w = (Inl e, w2)"
    by (cases "stop_server_try E pid ?w") simp
  from assms(1) t get_server_pid_Some(1,2) [OF assms(1)] stop_server_try_raises_pid_file [OF t]
  show ?thesis
    by (auto simp add: stop_server_def)
qed

theorem signal_error_keeps_record_witness:
  "get_server_pid env_kill_fails (world_of ''4242'')
     = (Inr (Some 4242), world_probed ''4242'' 4242)
   \<and> request_res env_kill_fails (clock (world_probed ''4242'' 4242)) 4242 = None
   \<and> probes_return env_kill_fails 4242 (Suc (clock (world_probed ''4242'' 4242))) 10
   \<and> force_res env_kill_fails (clock (world_probed ''4242'' 4242) + 11) 4242 = Some OSError
   \<and> fst (stop_server env_kill_fails (world_of ''4242'')) = Inr False
   \<and> last (trace (snd (stop_server env_kill_fails (world_of ''4242''))))
       = Print (MsgStopException OSError)
   \<and> pid_file (snd (stop_server env_kill_fails (world_of ''4242''))) = Some ''4242''"
proof -
  have h1: "get_server_pid env_kill_fails (world_of ''4242'')
              = (Inr (Some 4242), world_probed ''4242'' 4242)"
    by (rule get_server_pid_4242) (simp_all add: env_kill_fails_def env0_def)
  have a: "request_res env_kill_fails (clock (world_probed ''4242'' 4242)) 4242 = None"
    by (simp add: request_res_def env_kill_fails_def env0_def)
  have b: "probes_return env_kill_fails 4242 (Suc (clock (world_probed ''4242'' 4242))) 10"
    by (simp add: eval_nat_numeral env_kill_fails_def env0_def)
  have c: "force_res env_kill_fails (clock (world_probed ''4242'' 4242) + 11) 4242
             = Some OSError"
    by (simp add: force_res_def env_kill_fails_def env0_def)
  from a b c have h2: "signal_raises env_kill_fails 4242 (clock (world_probed ''4242'' 4242))
                         OSError"
    by (simp add: signal_raises_def)
  have p: "pid_file (world_of ''4242'') = Some ''4242''"
    by (simp add: world_of_def)
  from signal_error_keeps_record [OF h1 h2] h1 a b c p show ?thesis
    by simp
qed

subsection \<open>Start while the server is running\<close>

text \<open>
  Claim C4 says that a start in a state in which the registry reports a live process
  fails with the already-running report and leaves the record file in place.
  \<open>start_server\<close> reads the registry twice: once in \<open>is_server_running\<close> and once
  for the pid in its message. When the process of the record \<open>4242\<close> is alive at the
  first read and gone at the second, the second read removes the record: the call returns
  \<open>False\<close>, its message names no pid, and the record file is gone.
\<close>

theorem start_on_dying_process_counterexample:
  "fst (get_server_pid env_dies (world_of ''4242'')) = Inr (Some 4242)
   \<and> fst (start_server env_dies False False (world_of ''4242'')) = Inr False
   \<and> trace (snd (start_server env_dies False False (world_of ''4242'')))
       = [Kill 4242 SIG0, Kill 4242 SIG0, Print (MsgAlreadyRunning None)]
   \<and> pid_file (snd (start_server env_dies False False (world_of ''4242''))) = None"
  by (simp add: start_server_def is_server_running_def get_server_pid_def parse_4242
        os_kill_def unlink_def world_of_def env_dies_def env0_def)

text \<open>
  Claim C4 as amended. For every state in which the registry reports a live process at
  both reads \<open>start_server\<close> makes of it (the second read finds the record readable and
  its probe returns), the call returns \<open>False\<close> after printing the already-running
  error with the pid; it has probed the process twice and done nothing else, so nothing was
  spawned; and the record file is as before and holds the pid of that process.
\<close>

theorem already_running_start_refused:
  assumes "get_server_pid E w = (Inr (Some pid), w1)"
    and "open_res E (clock w1) = None"
    and "kill_res E (Suc (clock w1)) pid SIG0 = None"
  shows "fst (start_server E foreground use_go w) = Inr False
       \<and> trace (snd (start_server E foreground use_go w))
           = trace w @ [Kill pid SIG0, Kill pid SIG0, Print (MsgAlreadyRunning (Some pid))]
       \<and> pid_file (snd (start_server E foreground use_go w)) = pid_file w
       \<and> (\<exists>content. pid_file w = Some content \<and> py_int (py_strip content) = Some pid)"
proof -
  from get_server_pid_Some(1,2) [OF assms(1)] obtain content where
    c: "pid_file w1 = Some content" "pid_file w = Some content"
      "py_int (py_strip content) = Some pid"
    by auto
  note r = get_server_pid_live [OF c(1) assms(2) c(3) assms(3)]
  from assms(1) r c get_server_pid_Some(3) [OF assms(1)]
  show ?thesis
    by (simp add: start_server_def is_server_running_def)
qed

theorem already_running_start_refused_witness:
  "get_server_pid env0 (world_of ''4242'') = (Inr (Some 4242), world_probed ''4242'' 4242)
   \<and> open_res env0 (clock (world_probed ''4242'' 4242)) = None
   \<and> kill_res env0 (Suc (clock (world_probed ''4242'' 4242))) 4242 SIG0 = None
   \<and> fst (start_server env0 True False (world_of ''4242'')) = Inr False
   \<and> trace (snd (start_server env0 True False (world_of ''4242'')))
       = [Kill 4242 SIG0, Kill 4242 SIG0, Print (MsgAlreadyRunning (Some 4242))]
   \<and> pid_file (snd (start_server env0 True False (world_of ''4242''))) = Some ''4242''"
proof -
  have h1: "get_server_pid env0 (world_of ''4242'')
              = (Inr (Some 4242), world_probed ''4242'' 4242)"
    by (rule get_server_pid_4242) (simp_all add: env0_def)
  have h2: "open_res env0 (clock (world_probed ''4242'' 4242)) = None"
    by (simp add: env0_def)
  have h3: "kill_res env0 (Suc (clock (world_probed ''4242'' 4242))) 4242 SIG0 = None"
    by (simp add: env0_def)
  have p: "pid_file (world_of ''4242'') = Some ''4242''" "trace (world_of ''4242'') = []"
    by (simp_all add: world_of_def)
  from already_running_start_refused [OF h1 h2 h3, of True False] h1 h2 h3 p show ?thesis
    by simp
qed

subsection \<open>The record that a start writes\<close>

text \<open>\<open>str\<close> of an integer is read back by \<open>int\<close> as the same integer.\<close>

lemma digit_table:
  "list_all (\<lambda>d. is_digit (digit_char d) \<and> digit_val (digit_char d) = d
                 \<and> \<not> py_isspace (digit_char d)
                 \<and> digit_char d \<noteq> CHR ''-'' \<and> digit_char d \<noteq> CHR ''+'')
     [0, 1, 2, 3, 4, 5, 6, 7, 8, 9 :: int]"
  by code_simp

lemma digit_char_facts:
  fixes d :: int
  assumes "0 \<le> d" "d < 10"
  shows "is_digit (digit_char d)"
    and "digit_val (digit_char d) = d"
    and "\<not> py_isspace (digit_char d)"
    and "digit_char d \<noteq> CHR ''-''"
    and "digit_char d \<noteq> CHR ''+''"
proof -
  from assms have "d \<in> set [0, 1, 2, 3, 4, 5, 6, 7, 8, 9 :: int]"
    by (simp; arith)
  with digit_table show "is_digit (digit_char d)" "digit_val (digit_char d) = d"
    "\<not> py_isspace (digit_char d)" "digit_char d \<noteq> CHR ''-''" "digit_char d \<noteq> CHR ''+''"
    unfolding list_all_iff by blast+
qed

lemma py_digits_all_digits:
  "list_all is_digit xs \<Longrightarrow>
     py_digits acc xs = Some (foldl (\<lambda>a c. 10 * a + digit_val c) acc xs)"
  by (induction xs arbitrary: acc) simp_all

lemma py_unsigned_all_digits:
  assumes "xs \<noteq> []" and "list_all is_digit xs"
  shows "py_unsigned xs = Some (foldl (\<lambda>a c. 10 * a + digit_val c) 0 xs)"
  using assms by (cases xs) (simp_all add: py_unsigned_def py_digits_all_digits)

lemma str_digits_props:
  assumes "0 \<le> n"
  shows "str_digits n \<noteq> []
       \<and> list_all is_digit (str_digits n)
       \<and> list_all (\<lambda>c. \<not> py_isspace c) (str_digits n)
       \<and> hd (str_digits n) \<noteq> CHR ''-'' \<and> hd (str_digits n) \<noteq> CHR ''+''
       \<and> foldl (\<lambda>a c. 10 * a + digit_val c) 0 (str_digits n) = n"
  using assms
proof (induction n rule: str_digits.induct)
  case (1 n)
  show ?case
  proof (cases "n < 10")
    case True
    with "1.prems" digit_char_facts [of n] show ?thesis
      by (simp add: str_digits.simps [of n])
  next
    case False
    with "1.prems" have d: "0 \<le> n div 10" "0 \<le> n mod 10" "n mod 10 < 10"
      by simp_all
    from "1.IH" [OF False d(1)] digit_char_facts [OF d(2,3)] False show ?thesis
      by (simp add: str_digits.simps [of n])
  qed
qed

lemma py_strip_no_space:
  assumes "list_all (\<lambda>c. \<not> py_isspace c) xs"
  shows "py_strip xs = xs"
proof -
  from assms have a: "dropWhile py_isspace xs = xs"
    by (intro dropWhile_id) (simp add: list_all_iff)
  from assms have b: "dropWhile py_isspace (rev xs) = rev xs"
    by (intro dropWhile_id) (simp add: list_all_iff)
  show ?thesis by (simp add: py_strip_def a b)
qed

lemma py_int_py_str: "py_int (py_strip (py_str i)) = Some i"
proof (cases "i < 0")
  case True
  then have n: "0 \<le> - i" by simp
  note p = str_digits_props [OF n]
  have sp: "\<not> py_isspace CHR ''-''" by code_simp
  from p sp have s: "py_strip (CHR ''-'' # str_digits (- i)) = CHR ''-'' # str_digits (- i)"
    by (intro py_strip_no_space) simp
  have "py_int (CHR ''-'' # str_digits (- i)) = map_option uminus (py_unsigned (str_digits (- i)))"
    by (simp add: py_int_def s)
  also have "\<dots> = Some i"
    using p by (simp add: py_unsigned_all_digits)
  finally show ?thesis using True by (simp add: py_str_def s)
next
  case False
  then have n: "0 \<le> i" by simp
  note p = str_digits_props [OF n]
  from p have s: "py_strip (str_digits i) = str_digits i"
    by (intro py_strip_no_space) simp
  from p obtain c cs where cs: "str_digits i = c # cs"
    by (cases "str_digits i") auto
  with p have c: "c \<noteq> CHR ''-''" "c \<noteq> CHR ''+''" by simp_all
  have "py_int (str_digits i) = py_unsigned (str_digits i)"
    using c by (simp add: py_int_def s cs [symmetric]) (simp add: cs)
  also have "\<dots> = Some i"
    using p by (simp add: py_unsigned_all_digits)
  finally show ?thesis using False by (simp add: py_str_def s)
qed

lemma str_4242: "py_str 4242 = ''4242''"
  by code_simp

lemma parse_999999999: "py_int (py_strip ''999999999'') = Some 999999999"
  by code_simp

subsection \<open>What the functions add to the trace\<close>

text \<open>
  Each function extends the trace; provided \<open>P\<close> holds of every event that is not a
  spawn, and of the spawn of the launch where there is one, all events it adds satisfy
  \<open>P\<close>.
\<close>

lemma extends_with_refl [simp]: "extends_with P w w"
  by (simp add: extends_with_def)

lemma extends_with_trans:
  "extends_with P w w' \<Longrightarrow> extends_with P w' w'' \<Longrightarrow> extends_with P w w''"
  by (auto simp add: extends_with_def)

lemma extends_with_steps [simp]:
  "extends_with P w w' \<Longrightarrow> extends_with P w (tick w')"
  "extends_with P w w' \<Longrightarrow> extends_with P w (snd (unlink E w'))"
  "extends_with P w w' \<Longrightarrow> extends_with P w (snd (write_pid E pid w'))"
  "extends_with P w w' \<Longrightarrow> P e \<Longrightarrow> extends_with P w (emit e w')"
  "extends_with P w w' \<Longrightarrow> P (Print m) \<Longrightarrow> extends_with P w (print m w')"
  "extends_with P w w' \<Longrightarrow> P (Sleep ms) \<Longrightarrow> extends_with P w (sleep ms w')"
  "extends_with P w w' \<Longrightarrow> P Mkdir \<Longrightarrow> extends_with P w (snd (mkdir E w'))"
  by (auto simp add: extends_with_def)

lemma unlink_extends:
  "unlink E w = (r, w') \<Longrightarrow> extends_with P w0 w \<Longrightarrow> extends_with P w0 w'"
  by (auto simp add: unlink_def extends_with_def split: option.splits)

lemma get_server_pid_extends:
  assumes "\<And>e. \<not> is_spawn e \<Longrightarrow> P e" and "extends_with P w0 w"
  shows "extends_with P w0 (snd (get_server_pid E w))"
proof -
  have k: "extends_with P w0 (tick (emit (Kill pid SIG0) (tick w)))" for pid
    using assms by simp
  have t: "extends_with P w0 (tick w)" using assms by simp
  show ?thesis
    using k t
    by (auto simp add: get_server_pid_def os_kill_def dest: unlink_extends
          split: option.splits prod.splits)
qed

lemma poll_loop_extends:
  assumes "\<And>e. \<not> is_spawn e \<Longrightarrow> P e"
  shows "extends_with P w0 w \<Longrightarrow> extends_with P w0 (snd (poll_loop E pid n w))"
proof (induction n arbitrary: w)
  case 0
  then show ?case by simp
next
  case (Suc n)
  let ?w' = "tick (emit (Kill pid SIG0) (sleep 500 w))"
  from Suc.prems assms have "extends_with P w0 ?w'" by simp
  from this Suc.IH [OF this] show ?case
    by (auto simp add: os_kill_def split: option.splits)
qed

lemma request_force_extends:
  assumes "\<And>e. \<not> is_spawn e \<Longrightarrow> P e" and "extends_with P w0 w"
  shows "extends_with P w0 (snd (request_stop E pid w))"
    and "extends_with P w0 (snd (force_stop E pid w))"
  using assms
  by (simp_all add: request_stop_def force_stop_def taskkill_def os_kill_def)

lemma stop_finish_extends:
  assumes "\<And>e. \<not> is_spawn e \<Longrightarrow> P e" and "extends_with P w0 w"
  shows "extends_with P w0 (snd (stop_finish E w))"
proof -
  from assms have "extends_with P w0 (snd (unlink E w))" by simp
  with assms(1) show ?thesis
    by (cases "unlink E w") (auto simp add: stop_finish_def split: option.splits)
qed

lemma stop_server_try_extends_with:
  assumes P: "\<And>e. \<not> is_spawn e \<Longrightarrow> P e" and w: "extends_with P w0 w"
  shows "extends_with P w0 (snd (stop_server_try E pid w))"
proof -
  obtain r1 w1 where r1: "request_stop E pid w = (r1, w1)"
    by (cases "request_stop E pid w")
  obtain r2 w2 where r2: "poll_loop E pid 10 w1 = (r2, w2)"
    by (cases "poll_loop E pid 10 w1")
  obtain r3 w3 where r3: "force_stop E pid (print MsgForcing w2) = (r3, w3)"
    by (cases "force_stop E pid (print MsgForcing w2)")
  have e1: "extends_with P w0 w1"
    using request_force_extends(1) [OF P w, of E pid] r1 by simp
  have e2: "extends_with P w0 w2"
    using poll_loop_extends [OF P e1, of E pid 10] r2 by simp
  from e2 P have "extends_with P w0 (print MsgForcing w2)" by simp
  from request_force_extends(2) [OF P this, of E pid] r3
  have e3: "extends_with P w0 w3" by simp
  from r1 r2 r3 e1 e2 e3 stop_finish_extends [OF P e2, of E] stop_finish_extends [OF P e3, of E]
  show ?thesis
    by (auto simp add: stop_server_try_def split: option.splits sum.splits bool.splits)
qed

lemma stop_server_extends:
  assumes P: "\<And>e. \<not> is_spawn e \<Longrightarrow> P e" and w: "extends_with P w0 w"
  shows "extends_with P w0 (snd (stop_server E w))"
proof -
  obtain r1 w1 where r1: "get_server_pid E w = (r1, w1)"
    by (cases "get_server_pid E w")
  have e1: "extends_with P w0 w1"
    using get_server_pid_extends [OF P w, of E] r1 by simp
  show ?thesis
  proof (cases r1)
    case (Inl e)
    with r1 e1 show ?thesis by (simp add: stop_server_def)
  next
    case (Inr p)
    show ?thesis
    proof (cases p)
      case None
      with Inr r1 e1 P show ?thesis by (simp add: stop_server_def)
    next
      case (Some pid)
      from e1 P have "extends_with P w0 (print (MsgStopping pid) w1)" by simp
      from stop_server_try_extends_with [OF P this, of E pid] Some Inr r1 P show ?thesis
        by (cases "stop_server_try E pid (print (MsgStopping pid) w1)")
           (auto simp add: stop_server_def split: sum.splits)
    qed
  qed
qed

lemma finally_unlink_extends:
  assumes "extends_with P w0 w"
  shows "extends_with P w0 (snd (finally_unlink E r w))"
proof -
  from assms have "extends_with P w0 (snd (unlink E w))" by simp
  then show ?thesis
    by (cases "unlink E w") (auto simp add: finally_unlink_def split: option.splits)
qed

lemma report_exit_extends:
  assumes P: "\<And>e. \<not> is_spawn e \<Longrightarrow> P e" and w: "extends_with P w0 w"
  shows "extends_with P w0 (snd (report_exit E err w))"
proof (cases err)
  case None
  with assms show ?thesis by (simp add: report_exit_def)
next
  case (Some s)
  let ?w = "(if s \<noteq> [] then print (MsgChildError s) else id) (print MsgFailedToStart w)"
  from assms have "extends_with P w0 ?w" by simp
  then have "extends_with P w0 (snd (unlink E ?w))" by simp
  with Some show ?thesis
    by (cases "unlink E ?w") (auto simp add: report_exit_def split: option.splits)
qed

lemma start_background_extends:
  assumes P: "\<And>e. \<not> is_spawn e \<Longrightarrow> P e" and S: "P (Spawn (command use_go) Pipe)"
    and w: "extends_with P w0 w"
  shows "extends_with P w0 (snd (start_background E use_go w))"
proof -
  obtain r1 w1 where r1: "popen E (command use_go) Pipe w = (r1, w1)"
    by (cases "popen E (command use_go) Pipe w")
  from assms r1 have e1: "extends_with P w0 w1"
    by (auto simp add: popen_def)
  show ?thesis
  proof (cases r1)
    case (Inl e)
    with r1 e1 show ?thesis by (simp add: start_background_def)
  next
    case (Inr child)
    obtain r2 w2 where r2: "write_pid E child w1 = (r2, w2)"
      by (cases "write_pid E child w1")
    from e1 have "extends_with P w0 (snd (write_pid E child w1))" by simp
    with r2 have e2: "extends_with P w0 w2" by simp
    obtain r3 w3 where r3: "process_poll E (sleep 2000 w2) = (r3, w3)"
      by (cases "process_poll E (sleep 2000 w2)")
    from e2 P r3 have e3: "extends_with P w0 w3"
      by (auto simp add: process_poll_def)
    obtain out err w4 where r4: "process_communicate E w3 = ((out, err), w4)"
      by (cases "process_communicate E w3") auto
    from e3 r4 have e4: "extends_with P w0 w4"
      by (auto simp add: process_communicate_def)
    from r1 Inr r2 r3 r4 e2 e3 P report_exit_extends [OF P e4, of E err] show ?thesis
      by (cases r2; cases r3) (simp_all add: start_background_def)
  qed
qed

lemma start_foreground_extends:
  assumes P: "\<And>e. \<not> is_spawn e \<Longrightarrow> P e" and S: "P (Spawn (command use_go) Inherit)"
    and w: "extends_with P w0 w"
  shows "extends_with P w0 (snd (start_foreground E use_go w))"
proof -
  obtain r1 w1 where r1: "popen E (command use_go) Inherit (print MsgForeground w) = (r1, w1)"
    by (cases "popen E (command use_go) Inherit (print MsgForeground w)")
  from assms r1 have e1: "extends_with P w0 w1"
    by (auto simp add: popen_def)
  show ?thesis
  proof (cases r1)
    case (Inl e)
    with r1 e1 show ?thesis by (simp add: start_foreground_def)
  next
    case (Inr child)
    obtain r2 w2 where r2: "write_pid E child w1 = (r2, w2)"
      by (cases "write_pid E child w1")
    from e1 have "extends_with P w0 (snd (write_pid E child w1))" by simp
    with r2 have e2: "extends_with P w0 w2" by simp
    obtain r3 w3 where r3: "process_wait E w2 = (r3, w3)"
      by (cases "process_wait E w2")
    from e2 r3 have e3: "extends_with P w0 w3"
      by (auto simp add: process_wait_def)
    obtain r4 w4 where r4: "stop_server E (print MsgStoppingServer w3) = (r4, w4)"
      by (cases "stop_server E (print MsgStoppingServer w3)")
    from e3 P have "extends_with P w0 (print MsgStoppingServer w3)" by simp
    from stop_server_extends [OF P this, of E] r4 have e4: "extends_with P w0 w4" by simp
    from r1 Inr r2 r3 r4 e2 finally_unlink_extends [OF e3, of E]
      finally_unlink_extends [OF e4, of E]
    show ?thesis
      by (cases r2; cases r3; cases r4) (simp_all add: start_foreground_def)
  qed
qed

lemma launch_extends:
  assumes P: "\<And>e. \<not> is_spawn e \<Longrightarrow> P e"
    and S: "P (Spawn (command use_go) (if foreground then Inherit else Pipe))"
    and w: "extends_with P w0 w"
  shows "extends_with P w0 (snd (launch E foreground use_go w))"
proof -
  obtain r1 w1 where r1: "mkdir E (print MsgStarting w) = (r1, w1)"
    by (cases "mkdir E (print MsgStarting w)")
  from w P have "extends_with P w0 (snd (mkdir E (print MsgStarting w)))" by simp
  with r1 have e1: "extends_with P w0 w1" by simp
  obtain r2 w2 where r2: "start_server_try E foreground use_go w1 = (r2, w2)"
    by (cases "start_server_try E foreground use_go w1")
  have e2: "extends_with P w0 w2"
  proof (cases foreground)
    case True
    with S have "P (Spawn (command use_go) Inherit)" by simp
    from start_foreground_extends [OF P this e1, of E] True r2 show ?thesis
      by (simp add: start_server_try_def)
  next
    case False
    with S have "P (Spawn (command use_go) Pipe)" by simp
    from start_background_extends [OF P this e1, of E] False r2 show ?thesis
      by (simp add: start_server_try_def)
  qed
  have e3: "extends_with P w0 (snd (unlink E (print (MsgStartException e) w2)))" for e
    using e2 P by simp
  show ?thesis
  proof (cases r1)
    case (Some e)
    with r1 e1 show ?thesis by (simp add: launch_def)
  next
    case None
    show ?thesis
    proof (cases r2)
      case (Inl e)
      with None r1 r2 e3 [of e] show ?thesis
        by (cases "unlink E (print (MsgStartException e) w2)")
           (auto simp add: launch_def split: option.splits)
    next
      case (Inr b)
      with None r1 r2 e2 show ?thesis by (simp add: launch_def)
    qed
  qed
qed

lemma start_server_extends:
  assumes P: "\<And>e. \<not> is_spawn e \<Longrightarrow> P e"
    and S: "P (Spawn (command use_go) (if foreground then Inherit else Pipe))"
    and w: "extends_with P w0 w"
  shows "extends_with P w0 (snd (start_server E foreground use_go w))"
proof -
  obtain r1 w1 where r1: "get_server_pid E w = (r1, w1)"
    by (cases "get_server_pid E w")
  have e1: "extends_with P w0 w1"
    using get_server_pid_extends [OF P w, of E] r1 by simp
  obtain r2 w2 where r2: "get_server_pid E w1 = (r2, w2)"
    by (cases "get_server_pid E w1")
  have e2: "extends_with P w0 w2"
    using get_server_pid_extends [OF P e1, of E] r2 by simp
  note e4 = launch_extends [OF P S e1, of E]
  show ?thesis
  proof (cases r1)
    case (Inl e)
    with r1 e1 show ?thesis
      by (simp add: start_server_def is_server_running_def)
  next
    case (Inr p)
    show ?thesis
    proof (cases p)
      case (Some pid)
      with Inr r1 r2 e2 P show ?thesis
        by (cases r2) (simp_all add: start_server_def is_server_running_def)
    next
      case None
      with Inr r1 e1 e4 P show ?thesis
        by (auto simp add: start_server_def is_server_running_def split: sum.splits bool.splits)
    qed
  qed
qed

lemma restart_server_extends:
  assumes P: "\<And>e. \<not> is_spawn e \<Longrightarrow> P e" and S: "P (Spawn Executable Pipe)"
  shows "extends_with P w (snd (restart_server E w))"
proof -
  obtain r1 w1 where r1: "stop_server E (print MsgRestarting w) = (r1, w1)"
    by (cases "stop_server E (print MsgRestarting w)")
  from P have "extends_with P w (print MsgRestarting w)" by simp
  from stop_server_extends [OF P this, of E] r1 have e1: "extends_with P w w1" by simp
  with P have e2: "extends_with P w (sleep 1000 w1)" by simp
  from S have S': "P (Spawn (command False) (if False then Inherit else Pipe))"
    by (simp add: command_def)
  have "extends_with P w (snd (start_server E False False (sleep 1000 w1)))"
    by (rule start_server_extends [OF P S' e2])
  with r1 e1 show ?thesis
    by (cases "start_server E False False (sleep 1000 w1)")
       (auto simp add: restart_server_def split: sum.splits)
qed

subsection \<open>The launch\<close>

lemma start_server_launches:
  assumes "get_server_pid E w = (Inr None, w1)" and "use_go \<or> exe_exists E = Inr True"
  shows "start_server E foreground use_go w = launch E foreground use_go w1"
  using assms by (auto simp add: start_server_def is_server_running_def)

subsection \<open>A launch in the background\<close>

text \<open>
  Claim C5 says that a background launch whose child has exited by the end of the grace
  interval returns failure, surfaces the captured error output of the child and leaves no
  record file. The removal of the record stands in the \<open>try\<close> block, and the handler
  \<open>except Exception\<close> tries it once more; when both removals raise, the second
  exception leaves \<open>start_server\<close>: the call does not return, and the record file
  still holds the pid 4242 of the child that has exited. And error output that is not valid
  UTF-8 makes \<open>stderr.decode()\<close> raise: the call prints the exception in place of the
  output of the child.
\<close>

theorem background_exit_record_stays_counterexample:
  "get_server_pid env_crash_jammed world0 = (Inr None, tick world0)
   \<and> spawn_res env_crash_jammed 2 = Inr 4242
   \<and> poll_res env_crash_jammed 4 = Some 1
   \<and> fst (start_server env_crash_jammed False False world0) = Inl OSError
   \<and> pid_file (snd (start_server env_crash_jammed False False world0)) = Some ''4242''
   \<and> get_server_pid env_garbled world0 = (Inr None, tick world0)
   \<and> spawn_res env_garbled 2 = Inr 4242
   \<and> poll_res env_garbled 4 = Some 1
   \<and> snd (communicate_res env_garbled 5) = None
   \<and> trace (snd (start_server env_garbled False False world0))
       = [Print MsgStarting, Mkdir, Spawn Executable Pipe, Sleep 2000, Print MsgFailedToStart,
          Print (MsgStartException ValueError)]"
  by (simp add: str_4242 start_server_def launch_def start_server_try_def
        start_background_def report_exit_def is_server_running_def get_server_pid_def
        popen_def process_poll_def process_communicate_def unlink_def write_pid_def mkdir_def
        command_def world0_def env_crash_jammed_def env_garbled_def env_crash_def env0_def)

text \<open>
  Claim C5 as amended. For every background launch, that is a start in the background in a
  state in which the registry reports no live process, the executable is there or the
  source is run, and the directory creation, the spawn and the write of the record return:
  if the child is still running after the grace interval of two seconds, the call returns
  \<open>True\<close> and the record file is in place and holds the pid of the child; if the
  child has exited by then, the call returns \<open>False\<close> and the record file is gone
  provided a removal of the record returns, the one of the branch or, after that one
  raised, the one of the handler; it prints the captured error output of the child when
  that is not empty and decodes, and reports a start error for error output that does not
  decode.
\<close>

theorem background_launch_outcome:
  assumes "get_server_pid E w = (Inr None, w1)"
    and "use_go \<or> exe_exists E = Inr True"
    and "mkdir_res E (clock w1) = None"
    and "spawn_res E (clock w1 + 1) = Inr child"
    and "write_res E (clock w1 + 2) = None"
  shows "(poll_res E (clock w1 + 3) = None \<longrightarrow>
            fst (start_server E False use_go w) = Inr True
          \<and> trace (snd (start_server E False use_go w))
              = trace w1 @ [Print MsgStarting, Mkdir, Spawn (command use_go) Pipe, Sleep 2000,
                            Print (MsgStarted (command use_go) child)]
          \<and> pid_file (snd (start_server E False use_go w)) = Some (py_str child)
          \<and> py_int (py_strip (py_str child)) = Some child)
       \<and> (\<forall>err. poll_res E (clock w1 + 3) \<noteq> None
              \<and> snd (communicate_res E (clock w1 + 4)) = Some err
              \<and> unlink_res E (clock w1 + 5) = None \<longrightarrow>
            fst (start_server E False use_go w) = Inr False
          \<and> trace (snd (start_server E False use_go w))
              = trace w1 @ [Print MsgStarting, Mkdir, Spawn (command use_go) Pipe, Sleep 2000,
                            Print MsgFailedToStart]
                 @ (if err \<noteq> [] then [Print (MsgChildError err)] else [])
          \<and> pid_file (snd (start_server E False use_go w)) = None)
       \<and> (\<forall>err e. poll_res E (clock w1 + 3) \<noteq> None
              \<and> snd (communicate_res E (clock w1 + 4)) = Some err
              \<and> unlink_res E (clock w1 + 5) = Some e
              \<and> unlink_res E (clock w1 + 6) = None \<longrightarrow>
            fst (start_server E False use_go w) = Inr False
          \<and> trace (snd (start_server E False use_go w))
              = trace w1 @ [Print MsgStarting, Mkdir, Spawn (command use_go) Pipe, Sleep 2000,
                            Print MsgFailedToStart]
                 @ (if err \<noteq> [] then [Print (MsgChildError err)] else [])
                 @ [Print (MsgStartException e)]
          \<and> pid_file (snd (start_server E False use_go w)) = None)
       \<and> (poll_res E (clock w1 + 3) \<noteq> None
              \<and> snd (communicate_res E (clock w1 + 4)) = None
              \<and> unlink_res E (clock w1 + 5) = None \<longrightarrow>
            fst (start_server E False use_go w) = Inr False
          \<and> trace (snd (start_server E False use_go w))
              = trace w1 @ [Print MsgStarting, Mkdir, Spawn (command use_go) Pipe, Sleep 2000,
                            Print MsgFailedToStart, Print (MsgStartException ValueError)]
          \<and> pid_file (snd (start_server E False use_go w)) = None)"
proof -
  note l = start_server_launches [OF assms(1,2)]
  have a: "poll_res E (clock w1 + 3) = None \<Longrightarrow>
            fst (start_server E False use_go w) = Inr True
          \<and> trace (snd (start_server E False use_go w))
              = trace w1 @ [Print MsgStarting, Mkdir, Spawn (command use_go) Pipe, Sleep 2000,
                            Print (MsgStarted (command use_go) child)]
          \<and> pid_file (snd (start_server E False use_go w)) = Some (py_str child)
          \<and> py_int (py_strip (py_str child)) = Some child"
    using assms(3-5)
    by (simp add: l launch_def start_server_try_def start_background_def popen_def
          process_poll_def write_pid_def mkdir_def py_int_py_str eval_nat_numeral)
  have b: "fst (start_server E False use_go w) = Inr False
          \<and> trace (snd (start_server E False use_go w))
              = trace w1 @ [Print MsgStarting, Mkdir, Spawn (command use_go) Pipe, Sleep 2000,
                            Print MsgFailedToStart]
                 @ (if err \<noteq> [] then [Print (MsgChildError err)] else [])
          \<and> pid_file (snd (start_server E False use_go w)) = None"
    if "poll_res E (clock w1 + 3) \<noteq> None" "snd (communicate_res E (clock w1 + 4)) = Some err"
      "unlink_res E (clock w1 + 5) = None" for err
    using assms(3-5) that
    by (cases "communicate_res E (clock w1 + 4)")
       (auto simp add: l launch_def start_server_try_def start_background_def report_exit_def
          popen_def process_poll_def process_communicate_def write_pid_def mkdir_def unlink_def
          eval_nat_numeral)
  have c: "fst (start_server E False use_go w) = Inr False
          \<and> trace (snd (start_server E False use_go w))
              = trace w1 @ [Print MsgStarting, Mkdir, Spawn (command use_go) Pipe, Sleep 2000,
                            Print MsgFailedToStart]
                 @ (if err \<noteq> [] then [Print (MsgChildError err)] else [])
                 @ [Print (MsgStartException e)]
          \<and> pid_file (snd (start_server E False use_go w)) = None"
    if "poll_res E (clock w1 + 3) \<noteq> None" "snd (communicate_res E (clock w1 + 4)) = Some err"
      "unlink_res E (clock w1 + 5) = Some e" "unlink_res E (clock w1 + 6) = None" for err e
    using assms(3-5) that
    by (cases "communicate_res E (clock w1 + 4)")
       (auto simp add: l launch_def start_server_try_def start_background_def report_exit_def
          popen_def process_poll_def process_communicate_def write_pid_def mkdir_def unlink_def
          eval_nat_numeral)
  have d: "fst (start_server E False use_go w) = Inr False
          \<and> trace (snd (start_server E False use_go w))
              = trace w1 @ [Print MsgStarting, Mkdir, Spawn (command use_go) Pipe, Sleep 2000,
                            Print MsgFailedToStart, Print (MsgStartException ValueError)]
          \<and> pid_file (snd (start_server E False use_go w)) = None"
    if "poll_res E (clock w1 + 3) \<noteq> None" "snd (communicate_res E (clock w1 + 4)) = None"
      "unlink_res E (clock w1 + 5) = None"
    using assms(3-5) that
    by (cases "communicate_res E (clock w1 + 4)")
       (auto simp add: l launch_def start_server_try_def start_background_def report_exit_def
          popen_def process_poll_def process_communicate_def write_pid_def mkdir_def unlink_def
          eval_nat_numeral)
  from a b c d show ?thesis by blast
qed

theorem background_launch_outcome_witness:
  "get_server_pid env0 world0 = (Inr None, tick world0)
   \<and> mkdir_res env0 (clock (tick world0)) = None
   \<and> spawn_res env0 (clock (tick world0) + 1) = Inr 4242
   \<and> write_res env0 (clock (tick world0) + 2) = None
   \<and> poll_res env0 (clock (tick world0) + 3) = None
   \<and> fst (start_server env0 False False world0) = Inr True
   \<and> trace (snd (start_server env0 False False world0))
       = [Print MsgStarting, Mkdir, Spawn Executable Pipe, Sleep 2000,
          Print (MsgStarted Executable 4242)]
   \<and> pid_file (snd (start_server env0 False False world0)) = Some ''4242''
   \<and> get_server_pid env_crash world0 = (Inr None, tick world0)
   \<and> spawn_res env_crash (clock (tick world0) + 1) = Inr 4242
   \<and> poll_res env_crash (clock (tick world0) + 3) = Some 1
   \<and> snd (communicate_res env_crash (clock (tick world0) + 4)) = Some ''boom''
   \<and> unlink_res env_crash (clock (tick world0) + 5) = None
   \<and> fst (start_server env_crash False False world0) = Inr False
   \<and> trace (snd (start_server env_crash False False world0))
       = [Print MsgStarting, Mkdir, Spawn Executable Pipe, Sleep 2000,
          Print MsgFailedToStart, Print (MsgChildError ''boom'')]
   \<and> pid_file (snd (start_server env_crash False False world0)) = None"
proof -
  have a: "get_server_pid env0 world0 = (Inr None, tick world0)"
    "get_server_pid env_crash world0 = (Inr None, tick world0)"
    by (simp_all add: get_server_pid_def world0_def env_crash_def env0_def)
  have b: "False \<or> exe_exists env0 = Inr True" "False \<or> exe_exists env_crash = Inr True"
    by (simp_all add: env0_def env_crash_def)
  have c: "mkdir_res env0 (clock (tick world0)) = None"
    "spawn_res env0 (clock (tick world0) + 1) = Inr 4242"
    "write_res env0 (clock (tick world0) + 2) = None"
    "mkdir_res env_crash (clock (tick world0)) = None"
    "spawn_res env_crash (clock (tick world0) + 1) = Inr 4242"
    "write_res env_crash (clock (tick world0) + 2) = None"
    by (simp_all add: env0_def env_crash_def)
  have d: "poll_res env0 (clock (tick world0) + 3) = None"
    "poll_res env_crash (clock (tick world0) + 3) = Some 1"
    "snd (communicate_res env_crash (clock (tick world0) + 4)) = Some ''boom''"
    "unlink_res env_crash (clock (tick world0) + 5) = None"
    by (simp_all add: env0_def env_crash_def)
  have e: "trace (tick world0) = []" "command False = Executable"
    by (simp_all add: world0_def command_def)
  note A = background_launch_outcome [OF a(1) b(1) c(1,2,3)]
    and B = background_launch_outcome [OF a(2) b(2) c(4,5,6)]
  from A d(1) have A': "fst (start_server env0 False False world0) = Inr True
     \<and> trace (snd (start_server env0 False False world0))
         = trace (tick world0) @ [Print MsgStarting, Mkdir, Spawn (command False) Pipe,
             Sleep 2000, Print (MsgStarted (command False) 4242)]
     \<and> pid_file (snd (start_server env0 False False world0)) = Some (py_str 4242)"
    by blast
  from B d(2,3,4) have B': "fst (start_server env_crash False False world0) = Inr False
     \<and> trace (snd (start_server env_crash False False world0))
         = trace (tick world0) @ [Print MsgStarting, Mkdir, Spawn (command False) Pipe,
             Sleep 2000, Print MsgFailedToStart]
            @ (if ''boom'' \<noteq> [] then [Print (MsgChildError ''boom'')] else [])
     \<and> pid_file (snd (start_server env_crash False False world0)) = None"
    by blast
  from A' B' a c d e str_4242 show ?thesis by simp
qed

subsection \<open>A launch in the foreground\<close>

lemma finally_unlink_returns:
  "finally_unlink E r w = (Inr b, w') \<Longrightarrow> pid_file w' = None"
  by (auto simp add: finally_unlink_def unlink_def split: option.splits)

lemma start_foreground_returns:
  assumes "start_foreground E use_go w = (Inr b, w')"
  shows "pid_file w' = None"
proof -
  obtain r1 w1 where r1: "popen E (command use_go) Inherit (print MsgForeground w) = (r1, w1)"
    by (cases "popen E (command use_go) Inherit (print MsgForeground w)")
  show ?thesis
  proof (cases r1)
    case (Inl e)
    with r1 assms show ?thesis by (simp add: start_foreground_def)
  next
    case (Inr child)
    obtain r2 w2 where r2: "write_pid E child w1 = (r2, w2)"
      by (cases "write_pid E child w1")
    obtain r3 w3 where r3: "process_wait E w2 = (r3, w3)"
      by (cases "process_wait E w2")
    obtain r4 w4 where r4: "stop_server E (print MsgStoppingServer w3) = (r4, w4)"
      by (cases "stop_server E (print MsgStoppingServer w3)")
    from assms r1 Inr r2 r3 r4 show ?thesis
      by (cases r2; cases r3; cases r4)
         (auto simp add: start_foreground_def dest: finally_unlink_returns)
  qed
qed

lemma launch_foreground_returns:
  assumes "launch E True use_go w = (Inr b, w')"
  shows "pid_file w' = None"
proof -
  obtain r1 w1 where r1: "mkdir E (print MsgStarting w) = (r1, w1)"
    by (cases "mkdir E (print MsgStarting w)")
  obtain r2 w2 where r2: "start_foreground E use_go w1 = (r2, w2)"
    by (cases "start_foreground E use_go w1")
  show ?thesis
  proof (cases r2)
    case (Inl e)
    with assms r1 r2 show ?thesis
      by (cases r1)
         (auto simp add: launch_def start_server_try_def unlink_def split: option.splits)
  next
    case (Inr c)
    with assms r1 r2 start_foreground_returns [of E use_go w1 c w2] show ?thesis
      by (cases r1) (auto simp add: launch_def start_server_try_def)
  qed
qed

lemma launch_returns:
  assumes "mkdir_res E (clock w) = None" and "\<forall>t. unlink_res E t = None"
  shows "\<exists>b. fst (launch E foreground use_go w) = Inr b"
proof -
  obtain r1 w1 where r1: "mkdir E (print MsgStarting w) = (r1, w1)"
    by (cases "mkdir E (print MsgStarting w)")
  with assms(1) have n: "r1 = None" by (simp add: mkdir_def)
  obtain r2 w2 where r2: "start_server_try E foreground use_go w1 = (r2, w2)"
    by (cases "start_server_try E foreground use_go w1")
  from r1 n r2 assms(2) show ?thesis
    by (cases r2) (auto simp add: launch_def unlink_def)
qed

text \<open>
  Claim C6 says that on every way out of a foreground launch the record file is absent when
  the call ends. The removal in the \<open>finally\<close> clause can raise; the handler
  \<open>except Exception\<close> then removes the record once more, and when that removal raises
  too, the exception leaves \<open>start_server\<close> with the record file in place: after a
  wait that ended by itself the record still holds the pid 4242 of the child.
\<close>

theorem foreground_record_outlives_counterexample:
  "get_server_pid env_jammed world0 = (Inr None, tick world0)
   \<and> spawn_res env_jammed 2 = Inr 4242
   \<and> \<not> wait_res env_jammed 4
   \<and> fst (start_server env_jammed True False world0) = Inl OSError
   \<and> pid_file (snd (start_server env_jammed True False world0)) = Some ''4242''"
  by (simp add: str_4242 start_server_def launch_def start_server_try_def
        start_foreground_def finally_unlink_def is_server_running_def get_server_pid_def
        popen_def process_wait_def unlink_def write_pid_def mkdir_def
        command_def world0_def env_jammed_def env0_def)

text \<open>
  Claim C6 as amended. For every foreground launch, that is a start in the foreground in a
  state in which the registry reports no live process and the executable is there or the
  source is run: whenever the call returns, the record file is absent, on every way out;
  the call returns whenever the directory creation and the removals of the record raise
  nothing; it returns \<open>False\<close> after a spawn that raises and \<open>True\<close> after a wait
  that ends by itself, when the removal on that way returns; and when the user interrupts
  the wait, the call first runs \<open>stop_server\<close> on the record of the child, which
  holds the pid of the child, before it removes the record.
\<close>

theorem foreground_launch_clears_record:
  assumes "get_server_pid E w = (Inr None, w1)"
    and "use_go \<or> exe_exists E = Inr True"
  shows "(\<forall>b. fst (start_server E True use_go w) = Inr b \<longrightarrow>
            pid_file (snd (start_server E True use_go w)) = None)
       \<and> (mkdir_res E (clock w1) = None \<and> (\<forall>t. unlink_res E t = None) \<longrightarrow>
            (\<exists>b. fst (start_server E True use_go w) = Inr b))
       \<and> (\<forall>e. mkdir_res E (clock w1) = None \<and> spawn_res E (clock w1 + 1) = Inl e
              \<and> unlink_res E (clock w1 + 2) = None \<longrightarrow>
            fst (start_server E True use_go w) = Inr False)
       \<and> (\<forall>child. mkdir_res E (clock w1) = None \<and> spawn_res E (clock w1 + 1) = Inr child
              \<and> write_res E (clock w1 + 2) = None \<and> \<not> wait_res E (clock w1 + 3)
              \<and> unlink_res E (clock w1 + 4) = None \<longrightarrow>
            fst (start_server E True use_go w) = Inr True)
       \<and> (\<forall>child. mkdir_res E (clock w1) = None \<and> spawn_res E (clock w1 + 1) = Inr child
              \<and> write_res E (clock w1 + 2) = None \<and> wait_res E (clock w1 + 3) \<longrightarrow>
            pid_file (world_at_interrupt E use_go child w1) = Some (py_str child)
          \<and> py_int (py_strip (py_str child)) = Some child
          \<and> prefix (trace (snd (stop_server E (world_at_interrupt E use_go child w1))))
               (trace (snd (start_server E True use_go w))))"
proof -
  note l = start_server_launches [OF assms(1,2)]
  have a: "pid_file (snd (start_server E True use_go w)) = None"
    if "fst (start_server E True use_go w) = Inr b" for b
    using that launch_foreground_returns [of E use_go w1 b "snd (launch E True use_go w1)"]
    by (cases "launch E True use_go w1") (simp add: l)
  have b: "\<exists>b. fst (start_server E True use_go w) = Inr b"
    if "mkdir_res E (clock w1) = None" "\<forall>t. unlink_res E t = None"
    using launch_returns [OF that, of True use_go] by (simp add: l)
  have c: "fst (start_server E True use_go w) = Inr False"
    if "mkdir_res E (clock w1) = None" "spawn_res E (clock w1 + 1) = Inl e"
      "unlink_res E (clock w1 + 2) = None" for e
    using that
    by (simp add: l launch_def start_server_try_def start_foreground_def popen_def mkdir_def
          unlink_def eval_nat_numeral)
  have d: "fst (start_server E True use_go w) = Inr True"
    if "mkdir_res E (clock w1) = None" "spawn_res E (clock w1 + 1) = Inr child"
      "write_res E (clock w1 + 2) = None" "\<not> wait_res E (clock w1 + 3)"
      "unlink_res E (clock w1 + 4) = None" for child
    using that
    by (simp add: l launch_def start_server_try_def start_foreground_def finally_unlink_def
          popen_def process_wait_def write_pid_def mkdir_def unlink_def eval_nat_numeral)
  have e: "pid_file (world_at_interrupt E use_go child w1) = Some (py_str child)
          \<and> py_int (py_strip (py_str child)) = Some child
          \<and> prefix (trace (snd (stop_server E (world_at_interrupt E use_go child w1))))
               (trace (snd (start_server E True use_go w)))"
    if h: "mkdir_res E (clock w1) = None" "spawn_res E (clock w1 + 1) = Inr child"
      "write_res E (clock w1 + 2) = None" "wait_res E (clock w1 + 3)" for child
  proof -
    let ?wi = "world_at_interrupt E use_go child w1"
    obtain r ws where s: "stop_server E ?wi = (r, ws)"
      by (cases "stop_server E ?wi")
    let ?r = "case r of Inl e \<Rightarrow> Inl e | Inr b \<Rightarrow> Inr True"
    have f: "start_foreground E use_go (snd (mkdir E (print MsgStarting w1)))
               = finally_unlink E ?r ws"
      using h s
      by (cases r)
         (simp_all add: start_foreground_def world_at_interrupt_def popen_def process_wait_def
            write_pid_def mkdir_def eval_nat_numeral)
    have p: "pid_file ?wi = Some (py_str child)"
      using h
      by (simp add: world_at_interrupt_def popen_def process_wait_def write_pid_def mkdir_def
            eval_nat_numeral)
    have "extends_with (\<lambda>e. True) ws (snd (finally_unlink E ?r ws))"
      by (rule finally_unlink_extends) simp
    moreover have "extends_with (\<lambda>e. True) (snd (finally_unlink E ?r ws))
                     (snd (launch E True use_go w1))"
      using h(1) f
      by (cases "finally_unlink E ?r ws"; cases "fst (finally_unlink E ?r ws)")
         (auto simp add: launch_def start_server_try_def mkdir_def unlink_def extends_with_def
            split: option.splits)
    ultimately have "extends_with (\<lambda>e. True) ws (snd (launch E True use_go w1))"
      by (rule extends_with_trans)
    then have "prefix (trace ws) (trace (snd (launch E True use_go w1)))"
      by (auto simp add: extends_with_def prefix_def)
    with s p show ?thesis
      by (simp add: l py_int_py_str)
  qed
  from a b c d e show ?thesis by blast
qed

theorem foreground_launch_clears_record_witness:
  "get_server_pid env_spawn_fails world0 = (Inr None, tick world0)
   \<and> mkdir_res env_spawn_fails (clock (tick world0)) = None
   \<and> spawn_res env_spawn_fails (clock (tick world0) + 1) = Inl OSError
   \<and> unlink_res env_spawn_fails (clock (tick world0) + 2) = None
   \<and> fst (start_server env_spawn_fails True False world0) = Inr False
   \<and> pid_file (snd (start_server env_spawn_fails True False world0)) = None
   \<and> get_server_pid env0 world0 = (Inr None, tick world0)
   \<and> spawn_res env0 (clock (tick world0) + 1) = Inr 4242
   \<and> write_res env0 (clock (tick world0) + 2) = None
   \<and> \<not> wait_res env0 (clock (tick world0) + 3)
   \<and> unlink_res env0 (clock (tick world0) + 4) = None
   \<and> fst (start_server env0 True False world0) = Inr True
   \<and> pid_file (snd (start_server env0 True False world0)) = None
   \<and> get_server_pid env_interrupt world0 = (Inr None, tick world0)
   \<and> spawn_res env_interrupt (clock (tick world0) + 1) = Inr 4242
   \<and> write_res env_interrupt (clock (tick world0) + 2) = None
   \<and> wait_res env_interrupt (clock (tick world0) + 3)
   \<and> fst (start_server env_interrupt True False world0) = Inr True
   \<and> pid_file (world_at_interrupt env_interrupt False 4242 (tick world0)) = Some ''4242''
   \<and> prefix (trace (snd (stop_server env_interrupt
                            (world_at_interrupt env_interrupt False 4242 (tick world0)))))
        (trace (snd (start_server env_interrupt True False world0)))
   \<and> trace (snd (stop_server env_interrupt
                    (world_at_interrupt env_interrupt False 4242 (tick world0))))
       = [Print MsgStarting, Mkdir, Print MsgForeground, Spawn Executable Inherit,
          Print MsgStoppingServer, Kill 4242 SIG0, Print (MsgStopping 4242),
          Kill 4242 SIGTERM, Sleep 500, Kill 4242 SIG0, Print MsgStopped]
   \<and> pid_file (snd (start_server env_interrupt True False world0)) = None"
proof -
  have a: "get_server_pid env_spawn_fails world0 = (Inr None, tick world0)"
    "get_server_pid env0 world0 = (Inr None, tick world0)"
    "get_server_pid env_interrupt world0 = (Inr None, tick world0)"
    by (simp_all add: get_server_pid_def world0_def env_spawn_fails_def env_interrupt_def
          env0_def)
  have b: "False \<or> exe_exists env_spawn_fails = Inr True" "False \<or> exe_exists env0 = Inr True"
    "False \<or> exe_exists env_interrupt = Inr True"
    by (simp_all add: env0_def env_spawn_fails_def env_interrupt_def)
  have c: "mkdir_res env_spawn_fails (clock (tick world0)) = None"
    "spawn_res env_spawn_fails (clock (tick world0) + 1) = Inl OSError"
    "unlink_res env_spawn_fails (clock (tick world0) + 2) = None"
    by (simp_all add: env0_def env_spawn_fails_def)
  have d: "mkdir_res env0 (clock (tick world0)) = None"
    "spawn_res env0 (clock (tick world0) + 1) = Inr 4242"
    "write_res env0 (clock (tick world0) + 2) = None"
    "\<not> wait_res env0 (clock (tick world0) + 3)"
    "unlink_res env0 (clock (tick world0) + 4) = None"
    by (simp_all add: env0_def)
  have e: "mkdir_res env_interrupt (clock (tick world0)) = None"
    "spawn_res env_interrupt (clock (tick world0) + 1) = Inr 4242"
    "write_res env_interrupt (clock (tick world0) + 2) = None"
    "wait_res env_interrupt (clock (tick world0) + 3)"
    "\<forall>t. unlink_res env_interrupt t = None"
    by (simp_all add: env0_def env_interrupt_def)
  have t: "trace (snd (stop_server env_interrupt
                    (world_at_interrupt env_interrupt False 4242 (tick world0))))
       = [Print MsgStarting, Mkdir, Print MsgForeground, Spawn Executable Inherit,
          Print MsgStoppingServer, Kill 4242 SIG0, Print (MsgStopping 4242),
          Kill 4242 SIGTERM, Sleep 500, Kill 4242 SIG0, Print MsgStopped]"
    by (simp add: stop_server_def stop_server_try_def stop_finish_def request_stop_def
          get_server_pid_def os_kill_def world_at_interrupt_def popen_def process_wait_def
          write_pid_def mkdir_def unlink_def command_def str_4242 parse_4242 eval_nat_numeral
          world0_def env_interrupt_def env0_def)
  note A = foreground_launch_clears_record [OF a(1) b(1)]
    and B = foreground_launch_clears_record [OF a(2) b(2)]
    and C = foreground_launch_clears_record [OF a(3) b(3)]
  from A c have A': "fst (start_server env_spawn_fails True False world0) = Inr False"
    by blast
  with A have A'': "pid_file (snd (start_server env_spawn_fails True False world0)) = None"
    by blast
  from B d have B': "fst (start_server env0 True False world0) = Inr True"
    by blast
  with B have B'': "pid_file (snd (start_server env0 True False world0)) = None"
    by blast
  have C': "fst (start_server env_interrupt True False world0) = Inr True"
    by (simp add: start_server_def launch_def start_server_try_def start_foreground_def
          finally_unlink_def is_server_running_def stop_server_def stop_server_try_def
          stop_finish_def request_stop_def get_server_pid_def os_kill_def popen_def
          process_wait_def write_pid_def mkdir_def unlink_def command_def str_4242 parse_4242
          eval_nat_numeral world0_def env_interrupt_def env0_def)
  with C have C'': "pid_file (snd (start_server env_interrupt True False world0)) = None"
    by blast
  from C e(1-4) have C3:
    "pid_file (world_at_interrupt env_interrupt False 4242 (tick world0)) = Some (py_str 4242)
     \<and> prefix (trace (snd (stop_server env_interrupt
                            (world_at_interrupt env_interrupt False 4242 (tick world0)))))
        (trace (snd (start_server env_interrupt True False world0)))"
    by blast
  from A' A'' B' B'' C' C'' C3 a c d e(2-4) t str_4242 show ?thesis
    by simp
qed

subsection \<open>Stop and restart without a live process\<close>

lemma not_other: "(e \<noteq> OtherError) = (e = OSError \<or> e = ValueError)"
  by (cases e) simp_all

lemma no_live_process_print [simp]:
  "no_live_process E (print m w) = no_live_process E w"
  "record_stale E (print m w) = record_stale E w"
  by (simp_all add: no_live_process_def record_stale_def cong: option.case_cong)

lemma no_live_read:
  assumes "no_live_process E w"
  shows "fst (get_server_pid E w) = Inr None"
    and "pid_file (snd (get_server_pid E w))
           = (if record_stale E w \<and> unlink_res E (Suc (Suc (clock w))) = None then None
              else pid_file w)"
    and "\<exists>probe. trace (snd (get_server_pid E w)) = trace w @ probe \<and> filter is_print probe = []"
  using assms
  by (auto simp add: no_live_process_def record_stale_def get_server_pid_def os_kill_def
        unlink_def not_other split: option.splits)

lemma stop_not_running:
  assumes "no_live_process E w"
  shows "stop_server E w = (Inr False, print MsgNotRunning (snd (get_server_pid E w)))"
  using no_live_read(1) [OF assms]
  by (cases "get_server_pid E w") (simp add: stop_server_def)

lemma printed_since_append:
  "trace w' = trace w @ evs \<Longrightarrow> printed_since w w' = filter is_print evs"
  by (simp add: printed_since_def)

text \<open>
  Claim C7 says that a stop or a restart in a state without a live managed process returns
  without changing the persisted state. The read of a stale record removes it, so a stop on
  the stale record \<open>999999999\<close> leaves no record file; and a restart goes on to start
  the server, so a restart without a record file leaves a record that holds the pid 4242
  of the new child.
\<close>

theorem stop_restart_mutate_state_counterexample:
  "no_live_process env_stale (world_of ''999999999'')
   \<and> pid_file (world_of ''999999999'') = Some ''999999999''
   \<and> pid_file (snd (stop_server env_stale (world_of ''999999999''))) = None
   \<and> no_live_process env0 world0
   \<and> pid_file world0 = None
   \<and> pid_file (snd (restart_server env0 world0)) = Some ''4242''"
  by (simp add: no_live_process_def parse_999999999 str_4242 restart_server_def stop_server_def
        start_server_def launch_def start_server_try_def start_background_def
        is_server_running_def get_server_pid_def popen_def process_poll_def os_kill_def
        unlink_def write_pid_def mkdir_def command_def
        world_of_def world0_def env_stale_def env0_def)

text \<open>
  Claim C7 as amended. In every state without a live managed process (no record file, a
  record that does not parse, or a stale record) whose read raises nothing, a stop call
  prints the warning that the server is not running and no other line, raises nothing and
  returns \<open>False\<close>; the record file is as before, except that a stale record is gone
  when its removal by the read returns. Two stop calls in a row without a record file both
  print the warning and return \<open>False\<close>, when the second existence check returns as
  well. A restart call in such a state prints its own line and the same warning, and then
  goes on like a start in the background with default arguments after the delay of one
  second, which may write a new record.
\<close>

theorem stop_when_not_running:
  assumes "no_live_process E w"
  shows "fst (stop_server E w) = Inr False
       \<and> printed_since w (snd (stop_server E w)) = [Print MsgNotRunning]
       \<and> pid_file (snd (stop_server E w))
           = (if record_stale E w \<and> unlink_res E (Suc (Suc (clock w))) = None then None
              else pid_file w)
       \<and> (pid_file w = None \<and> exists_raises (open_res E (Suc (clock w))) = None \<longrightarrow>
            fst (stop_server E (snd (stop_server E w))) = Inr False
          \<and> printed_since w (snd (stop_server E (snd (stop_server E w))))
              = [Print MsgNotRunning, Print MsgNotRunning]
          \<and> pid_file (snd (stop_server E (snd (stop_server E w)))) = None)
       \<and> take 2 (printed_since w (snd (restart_server E w)))
           = [Print MsgRestarting, Print MsgNotRunning]
       \<and> snd (restart_server E w)
           = snd (start_server E False False
                    (sleep 1000 (snd (stop_server E (print MsgRestarting w)))))"
proof -
  note s = stop_not_running [OF assms]
  from no_live_read(3) [OF assms] obtain probe where
    probe: "trace (snd (get_server_pid E w)) = trace w @ probe" "filter is_print probe = []"
    by blast
  have a: "fst (stop_server E w) = Inr False" by (simp add: s)
  have "trace (snd (stop_server E w)) = trace w @ (probe @ [Print MsgNotRunning])"
    by (simp add: s probe)
  from printed_since_append [OF this] probe(2)
  have b: "printed_since w (snd (stop_server E w)) = [Print MsgNotRunning]" by simp
  have c: "pid_file (snd (stop_server E w))
           = (if record_stale E w \<and> unlink_res E (Suc (Suc (clock w))) = None then None
              else pid_file w)"
    using no_live_read(2) [OF assms] by (simp add: s)
  have d: "fst (stop_server E (snd (stop_server E w))) = Inr False
          \<and> printed_since w (snd (stop_server E (snd (stop_server E w))))
              = [Print MsgNotRunning, Print MsgNotRunning]
          \<and> pid_file (snd (stop_server E (snd (stop_server E w)))) = None"
    if "pid_file w = None" "exists_raises (open_res E (Suc (clock w))) = None"
    using that assms
    by (simp add: no_live_process_def stop_server_def get_server_pid_def printed_since_def)
  have r: "no_live_process E (print MsgRestarting w)" using assms by simp
  note sr = stop_not_running [OF r]
  from no_live_read(3) [OF r] obtain probe' where
    probe': "trace (snd (get_server_pid E (print MsgRestarting w)))
               = trace (print MsgRestarting w) @ probe'" "filter is_print probe' = []"
    by blast
  have f: "snd (restart_server E w)
           = snd (start_server E False False
                    (sleep 1000 (snd (stop_server E (print MsgRestarting w)))))"
    by (simp add: restart_server_def sr split: prod.splits sum.splits)
  let ?w2 = "sleep 1000 (snd (stop_server E (print MsgRestarting w)))"
  have "extends_with (\<lambda>e. True) ?w2 (snd (start_server E False False ?w2))"
    by (rule start_server_extends) simp_all
  then obtain evs where
    evs: "trace (snd (start_server E False False ?w2)) = trace ?w2 @ evs"
    by (auto simp add: extends_with_def)
  have tw2: "trace ?w2 = trace w @ Print MsgRestarting # probe' @ [Print MsgNotRunning, Sleep 1000]"
    by (simp add: sr probe')
  have "trace (snd (restart_server E w))
          = trace w @ (Print MsgRestarting # probe' @ Print MsgNotRunning # Sleep 1000 # evs)"
    unfolding f evs tw2 by simp
  from printed_since_append [OF this] probe'(2)
  have e: "take 2 (printed_since w (snd (restart_server E w)))
           = [Print MsgRestarting, Print MsgNotRunning]" by simp
  from a b c d e f show ?thesis by blast
qed

theorem stop_when_not_running_witness:
  "no_live_process env0 world0
   \<and> pid_file world0 = None
   \<and> exists_raises (open_res env0 (Suc (clock world0))) = None
   \<and> fst (stop_server env0 world0) = Inr False
   \<and> printed_since world0 (snd (stop_server env0 world0)) = [Print MsgNotRunning]
   \<and> pid_file (snd (stop_server env0 world0)) = None
   \<and> fst (stop_server env0 (snd (stop_server env0 world0))) = Inr False
   \<and> printed_since world0 (snd (stop_server env0 (snd (stop_server env0 world0))))
       = [Print MsgNotRunning, Print MsgNotRunning]
   \<and> pid_file (snd (stop_server env0 (snd (stop_server env0 world0)))) = None
   \<and> take 2 (printed_since world0 (snd (restart_server env0 world0)))
       = [Print MsgRestarting, Print MsgNotRunning]
   \<and> no_live_process env_stale (world_of ''999999999'')
   \<and> fst (stop_server env_stale (world_of ''999999999'')) = Inr False
   \<and> pid_file (snd (stop_server env_stale (world_of ''999999999''))) = None"
proof -
  have h: "no_live_process env0 world0" "pid_file world0 = None" "\<not> record_stale env0 world0"
    "exists_raises (open_res env0 (Suc (clock world0))) = None"
    by (simp_all add: no_live_process_def record_stale_def world0_def env0_def)
  have k: "no_live_process env_stale (world_of ''999999999'')"
    "record_stale env_stale (world_of ''999999999'')"
    "unlink_res env_stale (Suc (Suc (clock (world_of ''999999999'')))) = None"
    by (simp_all add: no_live_process_def record_stale_def parse_999999999 world_of_def
          env_stale_def env0_def)
  have h3: "(if record_stale env0 world0 \<and> unlink_res env0 (Suc (Suc (clock world0))) = None
             then None else pid_file world0) = None"
    using h by simp
  have k3: "(if record_stale env_stale (world_of ''999999999'')
                \<and> unlink_res env_stale (Suc (Suc (clock (world_of ''999999999'')))) = None
             then None else pid_file (world_of ''999999999'')) = None"
    using k by simp
  note A = stop_when_not_running [OF h(1), unfolded h3]
    and B = stop_when_not_running [OF k(1), unfolded k3]
  from A B h k show ?thesis by blast
qed

subsection \<open>What a restart does\<close>

text \<open>
  Claim C8 says that every restart call performs a stop, then a delay, then a start. The
  results of the calls are not looked at, but an exception of \<open>stop_server\<close> leaves
  \<open>restart_server\<close>: where the existence check of the record file raises, the restart
  ends with that error after its first line, without delay and without start.
\<close>

theorem restart_without_start_counterexample:
  "fst (restart_server env_no_access world0) = Inl OSError
   \<and> trace (snd (restart_server env_no_access world0)) = [Print MsgRestarting]"
  by (simp add: restart_server_def stop_server_def get_server_pid_def world0_def
        env_no_access_def env0_def)

text \<open>
  Claim C8 as amended. Every restart call performs a stop; when the stop returns, whatever
  its result, the call goes on with a delay of one second and then a start with the
  default arguments: in the background, with the executable as target; when the stop
  raises, the restart ends there with the same error. No restart spawns anything but the
  executable with piped streams: never in the foreground, never the source.
\<close>

theorem restart_is_stop_delay_background_start:
  "extends_with background_default w (snd (restart_server E w))
   \<and> (\<forall>b. fst (stop_server E (print MsgRestarting w)) = Inr b \<longrightarrow>
         snd (restart_server E w)
           = snd (start_server E False False
                    (sleep 1000 (snd (stop_server E (print MsgRestarting w))))))
   \<and> (\<forall>e. fst (stop_server E (print MsgRestarting w)) = Inl e \<longrightarrow>
         restart_server E w = (Inl e, snd (stop_server E (print MsgRestarting w))))"
proof -
  have bd: "\<not> is_spawn e \<Longrightarrow> background_default e" for e
    by (cases e) simp_all
  have a: "extends_with background_default w (snd (restart_server E w))"
    by (rule restart_server_extends [OF bd]) simp_all
  have c: "fst (stop_server E (print MsgRestarting w)) = Inr b \<Longrightarrow>
         snd (restart_server E w)
           = snd (start_server E False False
                    (sleep 1000 (snd (stop_server E (print MsgRestarting w)))))" for b
    by (cases "stop_server E (print MsgRestarting w)")
       (auto simp add: restart_server_def split: sum.splits prod.splits)
  have d: "fst (stop_server E (print MsgRestarting w)) = Inl e \<Longrightarrow>
         restart_server E w = (Inl e, snd (stop_server E (print MsgRestarting w)))" for e
    by (cases "stop_server E (print MsgRestarting w)") (auto simp add: restart_server_def)
  from a c d show ?thesis by blast
qed

theorem restart_is_stop_delay_background_start_witness:
  "fst (stop_server env0 (print MsgRestarting world0)) = Inr False
   \<and> extends_with background_default world0 (snd (restart_server env0 world0))
   \<and> trace (snd (restart_server env0 world0))
       = [Print MsgRestarting, Print MsgNotRunning, Sleep 1000, Print MsgStarting, Mkdir,
          Spawn Executable Pipe, Sleep 2000, Print (MsgStarted Executable 4242)]
   \<and> fst (stop_server env_no_access (print MsgRestarting world0)) = Inl OSError
   \<and> fst (restart_server env_no_access world0) = Inl OSError"
proof -
  have h: "fst (stop_server env0 (print MsgRestarting world0)) = Inr False"
    by (simp add: stop_server_def get_server_pid_def world0_def env0_def)
  have k: "fst (stop_server env_no_access (print MsgRestarting world0)) = Inl OSError"
    by (simp add: stop_server_def get_server_pid_def world0_def env_no_access_def env0_def)
  from restart_is_stop_delay_background_start [of world0 env0] h
  have c: "snd (restart_server env0 world0)
             = snd (start_server env0 False False
                      (sleep 1000 (snd (stop_server env0 (print MsgRestarting world0)))))"
    and d: "extends_with background_default world0 (snd (restart_server env0 world0))"
    by blast+
  from restart_is_stop_delay_background_start [of world0 env_no_access] k
  have e: "fst (restart_server env_no_access world0) = Inl OSError"
    by simp
  have t: "trace (snd (start_server env0 False False
                      (sleep 1000 (snd (stop_server env0 (print MsgRestarting world0))))))
       = [Print MsgRestarting, Print MsgNotRunning, Sleep 1000, Print MsgStarting, Mkdir,
          Spawn Executable Pipe, Sleep 2000, Print (MsgStarted Executable 4242)]"
    by (simp add: stop_server_def start_server_def launch_def start_server_try_def
          start_background_def is_server_running_def get_server_pid_def popen_def
          process_poll_def write_pid_def mkdir_def command_def world0_def env0_def)
  from h c d t k e show ?thesis by simp
qed

subsection \<open>The order of the escalation\<close>

lemma actions_since_append:
  "trace w' = trace w @ evs \<Longrightarrow> actions_since w w' = filter (\<lambda>e. \<not> is_print e) evs"
  by (simp add: actions_since_def)

lemma filter_polls [simp]:
  "filter (\<lambda>e. \<not> is_print e) (concat (replicate m [Sleep 500, Kill pid SIG0]))
     = concat (replicate m [Sleep 500, Kill pid SIG0])"
  by (induction m) simp_all

lemma filter_map_Print [simp]: "filter (\<lambda>e. \<not> is_print e) (map Print ms) = []"
  by (induction ms) simp_all

lemma first_last_not_print [simp]:
  "\<not> is_print (first_request E pid)" "\<not> is_print (last_request E pid)"
  by (simp_all add: first_request_def last_request_def)

lemma prefix_polls:
  assumes "m \<le> n"
  shows "prefix (concat (replicate m xs)) (concat (replicate n xs))"
proof -
  from assms have "replicate n xs = replicate m xs @ replicate (n - m) xs"
    by (simp add: replicate_add [symmetric])
  then show ?thesis by (simp add: prefix_def)
qed

text \<open>The trace of the try block, by the answers its steps get.\<close>

lemma stop_server_try_trace:
  assumes r1: "request_stop E pid w = (r1, w1)"
    and r2: "poll_loop E pid 10 w1 = (r2, w2)"
    and r3: "force_stop E pid (print MsgForcing w2) = (r3, w3)"
  shows "trace (snd (stop_server_try E pid w)) =
    trace w @ first_request E pid #
     (case r1 of Some e \<Rightarrow> []
      | None \<Rightarrow>
          concat (replicate (polls_made E pid (Suc (clock w)) 10) [Sleep 500, Kill pid SIG0]) @
          (case r2 of Inl e \<Rightarrow> []
           | Inr True \<Rightarrow> map Print (if unlink_res E (clock w2) = None then [MsgStopped] else [])
           | Inr False \<Rightarrow> Print MsgForcing # last_request E pid #
               (case r3 of Some e \<Rightarrow> []
                | None \<Rightarrow> map Print (if unlink_res E (clock w3) = None then [MsgStopped] else []))))"
proof -
  have t1: "trace w1 = trace w @ [first_request E pid]" "clock w1 = Suc (clock w)"
    using request_stop_facts(2,3) [of E pid w] r1 by simp_all
  have t2: "trace w2 = trace w @ first_request E pid #
              concat (replicate (polls_made E pid (Suc (clock w)) 10) [Sleep 500, Kill pid SIG0])"
    using poll_loop_trace [of E pid 10 w1] r2 t1 by simp
  have t3: "trace w3 = trace w2 @ [Print MsgForcing, last_request E pid]"
    using force_stop_facts(1) [of E pid "print MsgForcing w2"] r3 by simp
  show ?thesis
    using r1 r2 r3 t1 t2 t3
    by (simp add: stop_server_try_def stop_finish_facts(2)
          split: option.splits sum.splits bool.splits)
qed

lemma stop_server_try_actions:
  "prefix (actions_since w (snd (stop_server_try E pid w))) (escalation E pid (clock w))"
  "request_res E (clock w) pid = None \<Longrightarrow> probes_clean E pid (Suc (clock w)) 10 \<Longrightarrow>
     actions_since w (snd (stop_server_try E pid w)) = escalation E pid (clock w)"
proof -
  let ?pm = "polls_made E pid (Suc (clock w)) 10"
  let ?at = "attempts E pid (Suc (clock w)) 10"
  obtain r1 w1 where r1: "request_stop E pid w = (r1, w1)"
    by (cases "request_stop E pid w")
  obtain r2 w2 where r2: "poll_loop E pid 10 w1 = (r2, w2)"
    by (cases "poll_loop E pid 10 w1")
  obtain r3 w3 where r3: "force_stop E pid (print MsgForcing w2) = (r3, w3)"
    by (cases "force_stop E pid (print MsgForcing w2)")
  have c1: "clock w1 = Suc (clock w)" "r1 = request_res E (clock w) pid"
    using request_stop_facts(1,3) [of E pid w] r1 by simp_all
  have le: "?pm \<le> ?at" by (rule polls_made_le)
  have ret: "r2 = Inr b \<Longrightarrow> ?pm = ?at \<and> present_throughout E pid (Suc (clock w)) 10 = (\<not> b)"
    for b
    using poll_loop_returns [of E pid 10 w1 b] r2 c1 by simp
  note full = stop_server_try_trace [OF r1 r2 r3]
  show "prefix (actions_since w (snd (stop_server_try E pid w))) (escalation E pid (clock w))"
  proof (cases r1)
    case (Some e)
    then show ?thesis
      unfolding actions_since_append [OF full] escalation_def by simp
  next
    case None
    show ?thesis
    proof (cases r2)
      case (Inl e)
      with None prefix_polls [OF le, of "[Sleep 500, Kill pid SIG0]"] show ?thesis
        unfolding actions_since_append [OF full] escalation_def by auto
    next
      case (Inr b)
      with None ret [OF Inr] show ?thesis
        unfolding actions_since_append [OF full] escalation_def
        by (cases b; cases r3) simp_all
    qed
  qed
  assume a: "request_res E (clock w) pid = None" "probes_clean E pid (Suc (clock w)) 10"
  from poll_loop_clean [of E pid w1 10] a(2) r2 c1 obtain b where b: "r2 = Inr b"
    by auto
  from a(1) c1 b ret [OF b]
  show "actions_since w (snd (stop_server_try E pid w)) = escalation E pid (clock w)"
    unfolding actions_since_append [OF full] escalation_def
    by (cases b; cases r3) simp_all
qed

lemma stop_server_try_extends:
  "\<exists>evs. trace (snd (stop_server_try E pid w)) = trace w @ first_request E pid # evs"
proof -
  obtain r1 w1 where r1: "request_stop E pid w = (r1, w1)"
    by (cases "request_stop E pid w")
  obtain r2 w2 where r2: "poll_loop E pid 10 w1 = (r2, w2)"
    by (cases "poll_loop E pid 10 w1")
  obtain r3 w3 where r3: "force_stop E pid (print MsgForcing w2) = (r3, w3)"
    by (cases "force_stop E pid (print MsgForcing w2)")
  from stop_server_try_trace [OF r1 r2 r3] show ?thesis by simp
qed

text \<open>
  The trace of a stop of a live pid: the line that announces it, the first request, what
  the try block does after it, and the lines printed at the end.
\<close>

lemma stop_server_live_trace:
  assumes "get_server_pid E w = (Inr (Some pid), w1)"
  shows "\<exists>evs ms. trace (snd (stop_server_try E pid (print (MsgStopping pid) w1)))
                  = trace w1 @ Print (MsgStopping pid) # first_request E pid # evs
          \<and> trace (snd (stop_server E w))
                  = trace w1 @ Print (MsgStopping pid) # first_request E pid # evs @ map Print ms"
proof -
  let ?w = "print (MsgStopping pid) w1"
  from stop_server_try_extends [of E pid ?w] obtain evs where
    evs: "trace (snd (stop_server_try E pid ?w)) = trace ?w @ first_request E pid # evs" ..
  then have evs': "trace (snd (stop_server_try E pid ?w))
                     = trace w1 @ Print (MsgStopping pid) # first_request E pid # evs"
    by simp
  show ?thesis
  proof (cases "stop_server_try E pid ?w")
    case (Pair r w2)
    show ?thesis
    proof (cases r)
      case (Inl e)
      with Pair evs assms
      have "trace (snd (stop_server E w))
              = trace w1 @ Print (MsgStopping pid) # first_request E pid # evs
                  @ map Print [MsgStopException e]"
        by (simp add: stop_server_def)
      with evs' show ?thesis by blast
    next
      case (Inr b)
      with Pair evs assms
      have "trace (snd (stop_server E w))
              = trace w1 @ Print (MsgStopping pid) # first_request E pid # evs @ map Print []"
        by (simp add: stop_server_def)
      with evs' show ?thesis by blast
    qed
  qed
qed

lemma stop_server_actions:
  assumes "get_server_pid E w = (Inr (Some pid), w1)"
  shows "actions_since w1 (snd (stop_server E w))
           = actions_since (print (MsgStopping pid) w1)
               (snd (stop_server_try E pid (print (MsgStopping pid) w1)))"
proof -
  from stop_server_live_trace [OF assms] obtain evs ms where
    a: "trace (snd (stop_server_try E pid (print (MsgStopping pid) w1)))
          = trace w1 @ Print (MsgStopping pid) # first_request E pid # evs"
    and b: "trace (snd (stop_server E w))
          = trace w1 @ Print (MsgStopping pid) # first_request E pid # evs @ map Print ms"
    by blast
  from a have a': "trace (snd (stop_server_try E pid (print (MsgStopping pid) w1)))
          = trace (print (MsgStopping pid) w1) @ first_request E pid # evs"
    by simp
  show ?thesis
    unfolding actions_since_append [OF a'] actions_since_append [OF b] by simp
qed

text \<open>
  Claim C9 says that every stop of a live pid starts with a graceful termination request.
  On Windows the first request of \<open>stop_server\<close> is \<open>taskkill /F /PID\<close>, the forced
  termination, and no \<open>SIGTERM\<close> is ever sent: the stop of the live process 4242 begins
  with the probe of the read, the line that announces the stop and the \<open>taskkill\<close> run.
\<close>

theorem graceful_first_counterexample:
  "win32 env_win32
   \<and> fst (get_server_pid env_win32 (world_of ''4242'')) = Inr (Some 4242)
   \<and> take 3 (trace (snd (stop_server env_win32 (world_of ''4242''))))
       = [Kill 4242 SIG0, Print (MsgStopping 4242), Taskkill 4242]
   \<and> Kill 4242 SIGTERM \<notin> set (trace (snd (stop_server env_win32 (world_of ''4242''))))"
  by (simp add: stop_server_def stop_server_try_def stop_finish_def unlink_def request_stop_def
        force_stop_def taskkill_def get_server_pid_def parse_4242 os_kill_def eval_nat_numeral
        world_of_def env_win32_def env0_def)

text \<open>
  Claim C9 as amended. For every stop of a live pid, what \<open>stop_server\<close> does after
  the read follows the escalation order: first the termination request of the platform
  (\<open>SIGTERM\<close>, graceful, elsewhere; the forced \<open>taskkill /F\<close> on Windows); then a
  probe for the absence of the process after each sleep of half a second, at most ten times
  and no more once the process is absent; then the forced request of the platform
  (\<open>SIGKILL\<close>, or \<open>taskkill /F\<close> again) only if the process was present at all ten
  probes, and no sleep or probe after it. When a primitive raises, the call has done an
  initial part of that order; when the first request returns and every probe returns or
  reports absence, it has done all of it.
\<close>

theorem stop_escalation_order:
  assumes "get_server_pid E w = (Inr (Some pid), w1)"
  shows "prefix (actions_since w1 (snd (stop_server E w))) (escalation E pid (clock w1))
       \<and> (request_res E (clock w1) pid = None \<and> probes_clean E pid (Suc (clock w1)) 10
            \<longrightarrow> actions_since w1 (snd (stop_server E w)) = escalation E pid (clock w1))"
  using stop_server_try_actions [where w = "print (MsgStopping pid) w1" and E = E and pid = pid]
  unfolding stop_server_actions [OF assms] by simp

theorem stop_escalation_order_witness:
  "get_server_pid env_exits (world_of ''4242'') = (Inr (Some 4242), world_probed ''4242'' 4242)
   \<and> request_res env_exits (clock (world_probed ''4242'' 4242)) 4242 = None
   \<and> probes_clean env_exits 4242 (Suc (clock (world_probed ''4242'' 4242))) 10
   \<and> actions_since (world_probed ''4242'' 4242) (snd (stop_server env_exits (world_of ''4242'')))
       = [Kill 4242 SIGTERM, Sleep 500, Kill 4242 SIG0, Sleep 500, Kill 4242 SIG0,
          Sleep 500, Kill 4242 SIG0]"
proof -
  have h: "get_server_pid env_exits (world_of ''4242'')
             = (Inr (Some 4242), world_probed ''4242'' 4242)"
    by (rule get_server_pid_4242) (simp_all add: env_exits_def env0_def)
  have r: "request_res env_exits (clock (world_probed ''4242'' 4242)) 4242 = None"
    by (simp add: request_res_def env_exits_def env0_def)
  have c: "probes_clean env_exits 4242 (Suc (clock (world_probed ''4242'' 4242))) 10"
    by (simp add: eval_nat_numeral env_exits_def env0_def world_probed_def)
  have e: "escalation env_exits 4242 (clock (world_probed ''4242'' 4242))
             = [Kill 4242 SIGTERM, Sleep 500, Kill 4242 SIG0, Sleep 500, Kill 4242 SIG0,
                Sleep 500, Kill 4242 SIG0]"
    by (simp add: escalation_def first_request_def last_request_def absent_def eval_nat_numeral
          env_exits_def env0_def world_probed_def)
  from stop_escalation_order [OF h] h r c e show ?thesis by simp
qed

subsection \<open>A record that holds a pid that is not positive\<close>

text \<open>
  Claim C10. The read does not check that the pid is positive: when the record file holds
  text that parses as an integer \<open>n \<le> 0\<close> and the probe \<open>os.kill(n, 0)\<close> returns,
  \<open>get_server_pid\<close> returns \<open>n\<close>; and \<open>stop_server\<close> called on such a record
  probes \<open>n\<close>, announces the stop of \<open>n\<close> and hands \<open>n\<close> to the termination
  primitive of the platform (\<open>os.kill(n, SIGTERM)\<close>, or \<open>taskkill /F /PID n\<close>).
\<close>

theorem nonpositive_pid_is_signalled:
  assumes "pid_file w = Some content"
    and "open_res E (clock w) = None"
    and "py_int (py_strip content) = Some n"
    and "n \<le> 0"
    and "kill_res E (Suc (clock w)) n SIG0 = None"
  shows "fst (get_server_pid E w) = Inr (Some n)
       \<and> prefix (trace w @ [Kill n SIG0, Print (MsgStopping n), first_request E n])
           (trace (snd (stop_server E w)))"
proof -
  note live = get_server_pid_live [OF assms(1,2,3,5)]
  from stop_server_live_trace [OF live] live show ?thesis
    by (auto simp add: prefix_def)
qed

theorem nonpositive_pid_is_signalled_witness:
  "pid_file (world_of ''-1'') = Some ''-1''
   \<and> open_res env0 (clock (world_of ''-1'')) = None
   \<and> py_int (py_strip ''-1'') = Some (- 1)
   \<and> (- 1 :: int) \<le> 0
   \<and> kill_res env0 (Suc (clock (world_of ''-1''))) (- 1) SIG0 = None
   \<and> fst (get_server_pid env0 (world_of ''-1'')) = Inr (Some (- 1))
   \<and> prefix (trace (world_of ''-1'')
               @ [Kill (- 1) SIG0, Print (MsgStopping (- 1)), Kill (- 1) SIGTERM])
       (trace (snd (stop_server env0 (world_of ''-1''))))"
proof -
  have h1: "pid_file (world_of ''-1'') = Some ''-1''" by (simp add: world_of_def)
  have h2: "open_res env0 (clock (world_of ''-1'')) = None" by (simp add: env0_def)
  have h3: "py_int (py_strip ''-1'') = Some (- 1)" by code_simp
  have h4: "(- 1 :: int) \<le> 0" by simp
  have h5: "kill_res env0 (Suc (clock (world_of ''-1''))) (- 1) SIG0 = None"
    by (simp add: env0_def)
  have f: "first_request env0 (- 1) = Kill (- 1) SIGTERM"
    by (simp add: first_request_def env0_def)
  from nonpositive_pid_is_signalled [OF h1 h2 h3 h4 h5] h1 h2 h3 h5 f show ?thesis by simp
qed

end
